theory Spec2Isabelle
  imports Main
begin

section \<open>Python values and failures\<close>

text \<open>
  Both source files are Python. An expression that raises is the error side of a sum;
  the five exception classes below are the ones the two files can raise by themselves
  (an index out of range, a missing key, an attribute of \<open>None\<close>, a \<open>None\<close> handed to a
  host call that wants an object, and a division by zero).
\<close>

datatype py_error = IndexError | KeyError | AttributeError | TypeError | ZeroDivisionError

text \<open>
  \<open>xs[i]\<close> on a Python sequence: a negative index counts from the end, and an index
  outside the sequence raises \<open>IndexError\<close>.
\<close>

definition getitem :: "'a list \<Rightarrow> int \<Rightarrow> py_error + 'a" where
  "getitem xs i =
     (let k = (if i < 0 then i + int (length xs) else i)
      in if k < 0 \<or> int (length xs) \<le> k then Inl IndexError else Inr (xs ! nat k))"

text \<open>
  How a call that writes state ends: it returns (\<open>Returned\<close>), or an exception leaves it
  (\<open>Raised\<close>). Both carry the state as the call leaves it: an exception undoes nothing.
\<close>

datatype 'a outcome = Returned 'a | Raised py_error 'a

fun state_of :: "'a outcome \<Rightarrow> 'a" where
  "state_of (Returned s) = s"
| "state_of (Raised e s) = s"

text \<open>The exception that ended a call; \<open>None\<close> for a call that returned.\<close>

fun error_of :: "'a outcome \<Rightarrow> py_error option" where
  "error_of (Returned s) = None"
| "error_of (Raised e s) = Some e"

text \<open>
  The literals of the fixture table. A float is kept as the source writes it (digits
  and a power of ten: \<open>0.1\<close> is \<open>PyFloat 1 (- 1)\<close>); a dict is the list of its items in
  source order.
\<close>

datatype pyval =
    PyStr string
  | PyInt int
  | PyBool bool
  | PyFloat int int
  | PySet "int set"
  | PyTuple "pyval list"
  | PyList "pyval list"
  | PyDict "(string \<times> pyval) list"

section \<open>tests/python/operators.py\<close>

subsection \<open>The fixture table of \<open>main\<close>\<close>

text \<open>
  The two module-level index sets, and the list \<open>tests\<close> that \<open>main\<close> builds. A set
  comprehension \<open>{i for i in range(n)}\<close> is the interval \<open>{0..<n}\<close>.
\<close>

definition MONKEY_LOOP_VERT :: "int set" where
  "MONKEY_LOOP_VERT = {68, 69, 71, 73, 74, 75, 76, 77, 90, 129, 136, 175, 188, 189, 198, 207, 216, 223, 230, 301, 302, 303, 304, 305, 306, 307, 308}"

definition MONKEY_LOOP_EDGE :: "int set" where
  "MONKEY_LOOP_EDGE = {131, 278, 299, 305, 307, 334, 337, 359, 384, 396, 399, 412, 415, 560, 567, 572, 577, 615, 622, 627, 632, 643, 648, 655, 660, 707}"

definition tests :: "pyval list" where
  "tests = [
    PyList [PyStr ''FACE'', PySet {0, 1, 2, 3, 4, 5},
      PyStr ''CubeBisect'', PyStr ''testCubeBisect'',
      PyStr ''expectedCubeBisect'', PyStr ''bisect'',
      PyDict [(''plane_co'', PyTuple [PyInt 0, PyInt 0, PyInt 0]), (''plane_no'', PyTuple [PyInt 0, PyInt 1, PyInt 1]), (''clear_inner'', PyBool True), (''use_fill'', PyBool True)]],
    PyList [PyStr ''FACE'', PySet {0, 1, 2, 3, 4, 5},
      PyStr ''CubeBlendFromShape'', PyStr ''testCubeBlendFromShape'',
      PyStr ''expectedCubeBlendFromShape'', PyStr ''blend_from_shape'',
      PyDict [(''shape'', PyStr ''Key 1'')]],
    PyList [PyStr ''FACE'', PySet {0, 1},
      PyStr ''CubeBridgeEdgeLoop'', PyStr ''testCubeBrigeEdgeLoop'',
      PyStr ''expectedCubeBridgeEdgeLoop'', PyStr ''bridge_edge_loops'',
      PyDict []],
    PyList [PyStr ''FACE'', PySet {0..<500},
      PyStr ''MonkeyDecimate'', PyStr ''testMonkeyDecimate'',
      PyStr ''expectedMonkeyDecimate'', PyStr ''decimate'',
      PyDict [(''ratio'', PyFloat 1 (- 1))]],
    PyList [PyStr ''VERT'', PySet {3},
      PyStr ''CubeDeleteVertices'', PyStr ''testCubeDeleteVertices'',
      PyStr ''expectedCubeDeleteVertices'', PyStr ''delete'',
      PyDict []],
    PyList [PyStr ''FACE'', PySet {0},
      PyStr ''CubeDeleteFaces'', PyStr ''testCubeDeleteFaces'',
      PyStr ''expectedCubeDeleteFaces'', PyStr ''delete'',
      PyDict []],
    PyList [PyStr ''EDGE'', PySet {0, 1, 2, 3},
      PyStr ''CubeDeleteEdges'', PyStr ''testCubeDeleteEdges'',
      PyStr ''expectedCubeDeleteEdges'', PyStr ''delete'',
      PyDict []],
    PyList [PyStr ''VERT'', PySet MONKEY_LOOP_VERT,
      PyStr ''MonkeyDeleteEdgeLoopVertices'', PyStr ''testMokneyDeleteEdgeLoopVertices'',
      PyStr ''expectedMonkeyDeleteEdgeLoopVertices'', PyStr ''delete_edgeloop'',
      PyDict []],
    PyList [PyStr ''EDGE'', PySet MONKEY_LOOP_EDGE,
      PyStr ''MonkeyDeleteEdgeLoopEdges'', PyStr ''testMokneyDeleteEdgeLoopEdges'',
      PyStr ''expectedMonkeyDeleteEdgeLoopEdges'', PyStr ''delete_edgeloop'',
      PyDict []],
    PyList [PyStr ''VERT'', PySet {0..<12},
      PyStr ''CubeDeleteLooseVertices'', PyStr ''testCubeDeleteLooseVertices'',
      PyStr ''expectedCubeDeleteLooseVertices'', PyStr ''delete_loose'',
      PyDict [(''use_verts'', PyBool True), (''use_edges'', PyBool False), (''use_faces'', PyBool False)]],
    PyList [PyStr ''EDGE'', PySet {0..<14},
      PyStr ''CubeDeleteLooseEdges'', PyStr ''testCubeDeleteLooseEdges'',
      PyStr ''expectedCubeDeleteLooseEdges'', PyStr ''delete_loose'',
      PyDict [(''use_verts'', PyBool False), (''use_edges'', PyBool True), (''use_faces'', PyBool False)]],
    PyList [PyStr ''FACE'', PySet {0..<7},
      PyStr ''CubeDeleteLooseFaces'', PyStr ''testCubeDeleteLooseFaces'',
      PyStr ''expectedCubeDeleteLooseFaces'', PyStr ''delete_loose'',
      PyDict [(''use_verts'', PyBool False), (''use_edges'', PyBool False), (''use_faces'', PyBool True)]],
    PyList [PyStr ''VERT'', PySet {0..<8},
      PyStr ''CubeDissolveDegenerate'', PyStr ''testCubeDissolveDegenerate'',
      PyStr ''expectedCubeDissolveDegenerate'', PyStr ''dissolve_degenerate'',
      PyDict []],
    PyList [PyStr ''EDGE'', PySet {0, 5, 6, 9},
      PyStr ''CylinderDissolveEdges'', PyStr ''testCylinderDissolveEdges'',
      PyStr ''expectedCylinderDissolveEdges'', PyStr ''dissolve_edges'',
      PyDict []],
    PyList [PyStr ''VERT'', PySet {5, 34, 47, 49, 83, 91, 95},
      PyStr ''CubeDissolveFaces'', PyStr ''testCubeDissolveFaces'',
      PyStr ''expectedCubeDissolveFaces'', PyStr ''dissolve_faces'',
      PyDict []],
    PyList [PyStr ''VERT'', PySet {16, 20, 22, 23, 25},
      PyStr ''CubeDissolveVerts'', PyStr ''testCubeDissolveVerts'',
      PyStr ''expectedCubeDissolveVerts'', PyStr ''dissolve_verts'',
      PyDict []],
    PyList [PyStr ''VERT'', PySet ({0..<33} - {23}),
      PyStr ''ConeDuplicateVertices'', PyStr ''testConeDuplicateVertices'',
      PyStr ''expectedConeDuplicateVertices'', PyStr ''duplicate'',
      PyDict []],
    PyList [PyStr ''VERT'', PySet {23},
      PyStr ''ConeDuplicateOneVertex'', PyStr ''testConeDuplicateOneVertex'',
      PyStr ''expectedConeDuplicateOneVertex'', PyStr ''duplicate'',
      PyDict []],
    PyList [PyStr ''FACE'', PySet {6, 9},
      PyStr ''ConeDuplicateFaces'', PyStr ''testConeDuplicateFaces'',
      PyStr ''expectedConeDuplicateFaces'', PyStr ''duplicate'',
      PyDict []],
    PyList [PyStr ''EDGE'', PySet {0..<64},
      PyStr ''ConeDuplicateEdges'', PyStr ''testConeDuplicateEdges'',
      PyStr ''expectedConeDuplicateEdges'', PyStr ''duplicate'',
      PyDict []],
    PyList [PyStr ''EDGE'', PySet {1, 9, 4},
      PyStr ''CylinderEdgeCollapse'', PyStr ''testCylinderEdgeCollapse'',
      PyStr ''expectedCylinderEdgeCollapse'', PyStr ''edge_collapse'',
      PyDict []],
    PyList [PyStr ''VERT'', PySet {1, 3, 4, 5, 7},
      PyStr ''CubeEdgeFaceAddFace'', PyStr ''testCubeEdgeFaceAddFace'',
      PyStr ''expectedCubeEdgeFaceAddFace'', PyStr ''edge_face_add'',
      PyDict []],
    PyList [PyStr ''VERT'', PySet {4, 5},
      PyStr ''CubeEdgeFaceAddEdge'', PyStr ''testCubeEdgeFaceAddEdge'',
      PyStr ''expectedCubeEdgeFaceAddEdge'', PyStr ''edge_face_add'',
      PyDict []],
    PyList [PyStr ''EDGE'', PySet {1},
      PyStr ''CubeEdgeRotate'', PyStr ''testCubeEdgeRotate'',
      PyStr ''expectedCubeEdgeRotate'', PyStr ''edge_rotate'',
      PyDict []],
    PyList [PyStr ''EDGE'', PySet {2, 5, 8, 11, 14, 17, 20, 23},
      PyStr ''CubeEdgeSplit'', PyStr ''testCubeEdgeSplit'',
      PyStr ''expectedCubeEdgeSplit'', PyStr ''edge_split'',
      PyDict []],
    PyList [PyStr ''FACE'', PySet {0..<500},
      PyStr ''MonkeyFaceMakePlanar'', PyStr ''testMonkeyFaceMakePlanar'',
      PyStr ''expectedMonkeyFaceMakePlanar'', PyStr ''face_make_planar'',
      PyDict []],
    PyList [PyStr ''VERT'', PySet {0..<6},
      PyStr ''PlaneFaceSplitByEdges'', PyStr ''testPlaneFaceSplitByEdges'',
      PyStr ''expectedPlaneFaceSplitByEdges'', PyStr ''face_split_by_edges'',
      PyDict []],
    PyList [PyStr ''EDGE'', PySet {20, 21, 22, 23, 24, 45, 46, 47, 48, 49},
      PyStr ''IcosphereFill'', PyStr ''testIcosphereFill'',
      PyStr ''expectedIcosphereFill'', PyStr ''fill'',
      PyDict []],
    PyList [PyStr ''EDGE'', PySet {20, 21, 22, 23, 24, 45, 46, 47, 48, 49},
      PyStr ''IcosphereFillUseBeautyFalse'', PyStr ''testIcosphereFillUseBeautyFalse'',
      PyStr ''expectedIcosphereFillUseBeautyFalse'', PyStr ''fill'',
      PyDict [(''use_beauty'', PyBool False)]],
    PyList [PyStr ''EDGE'', PySet {1, 2, 3, 4, 5, 7, 9, 10, 11, 12, 13, 15},
      PyStr ''PlaneFillGrid'', PyStr ''testPlaneFillGrid'',
      PyStr ''expectedPlaneFillGrid'', PyStr ''fill_grid'',
      PyDict []],
    PyList [PyStr ''EDGE'', PySet {1, 2, 3, 4, 5, 7, 9, 10, 11, 12, 13, 15},
      PyStr ''PlaneFillGridSimpleBlending'', PyStr ''testPlaneFillGridSimpleBlending'',
      PyStr ''expectedPlaneFillGridSimpleBlending'', PyStr ''fill_grid'',
      PyDict [(''use_interp_simple'', PyBool True)]],
    PyList [PyStr ''VERT'', PySet {0..<481},
      PyStr ''SphereFillHoles'', PyStr ''testSphereFillHoles'',
      PyStr ''expectedSphereFillHoles'', PyStr ''fill_holes'',
      PyDict [(''sides'', PyInt 9)]],
    PyList [PyStr ''VERT'', PySet {5, 16, 17, 19, 20, 22, 23, 34, 47, 49, 50, 52, 59, 61, 62, 65, 83, 91, 95},
      PyStr ''CubeInset'', PyStr ''testCubeInset'',
      PyStr ''expectedCubeInset'', PyStr ''inset'',
      PyDict [(''thickness'', PyFloat 2 (- 1))]],
    PyList [PyStr ''VERT'', PySet {5, 16, 17, 19, 20, 22, 23, 34, 47, 49, 50, 52, 59, 61, 62, 65, 83, 91, 95},
      PyStr ''CubeInsetEvenOffsetFalse'', PyStr ''testCubeInsetEvenOffsetFalse'',
      PyStr ''expectedCubeInsetEvenOffsetFalse'', PyStr ''inset'',
      PyDict [(''thickness'', PyFloat 2 (- 1)), (''use_even_offset'', PyBool False)]],
    PyList [PyStr ''VERT'', PySet {5, 16, 17, 19, 20, 22, 23, 34, 47, 49, 50, 52, 59, 61, 62, 65, 83, 91, 95},
      PyStr ''CubeInsetDepth'', PyStr ''testCubeInsetDepth'',
      PyStr ''expectedCubeInsetDepth'', PyStr ''inset'',
      PyDict [(''thickness'', PyFloat 2 (- 1)), (''depth'', PyFloat 2 (- 1))]],
    PyList [PyStr ''FACE'', PySet {35, 36, 37, 45, 46, 47, 55, 56, 57},
      PyStr ''GridInsetRelativeOffset'', PyStr ''testGridInsetRelativeOffset'',
      PyStr ''expectedGridInsetRelativeOffset'', PyStr ''inset'',
      PyDict [(''thickness'', PyFloat 4 (- 1)), (''use_relative_offset'', PyBool True)]]
  ]"


subsection \<open>The external test runner\<close>

text \<open>
  Modelled from the spec: the class \<open>OperatorTest\<close> of \<open>modules.mesh_test\<close>, which is
  not among these sources; the specification has it as an external object the script
  calls into, with semantics defined elsewhere. The script touches three things of the
  object it builds: it writes the attribute \<open>apply_modifiers\<close> and it calls the methods
  \<open>run_all_tests\<close> and \<open>run_test\<close>. The record keeps the attribute and a log of the
  calls the object has received, oldest first, each with the value of \<open>apply_modifiers\<close>
  the callee finds; every other attribute of the object is the record's extension. A
  method of the model records its call and does nothing else.
\<close>

datatype call = Run_all_tests | Run_test string

record OperatorTest =
  apply_modifiers :: bool
  calls :: "(call \<times> bool) list"

definition run_all_tests :: "'a OperatorTest_scheme \<Rightarrow> 'a OperatorTest_scheme" where
  "run_all_tests ot = ot\<lparr>calls := calls ot @ [(Run_all_tests, apply_modifiers ot)]\<rparr>"

definition run_test :: "'a OperatorTest_scheme \<Rightarrow> string \<Rightarrow> 'a OperatorTest_scheme" where
  "run_test ot name = ot\<lparr>calls := calls ot @ [(Run_test name, apply_modifiers ot)]\<rparr>"

subsection \<open>The dispatch loop of \<open>main\<close>\<close>

text \<open>
  \<open>for i, cmd in enumerate(command)\<close>: the second argument is what is left of
  \<open>enumerate(command)\<close>, the first the whole list, which \<open>command[i + 1]\<close> reads.
\<close>

fun dispatch ::
  "string list \<Rightarrow> (nat \<times> string) list \<Rightarrow> 'a OperatorTest_scheme \<Rightarrow>
     'a OperatorTest_scheme outcome" where
  "dispatch command [] operators_test = Returned operators_test"
| "dispatch command ((i, cmd) # todo) operators_test =
     (if cmd = ''--run-all-tests'' then Returned (run_all_tests operators_test)
      else if cmd = ''--run-test'' then
        (let operators_test = operators_test\<lparr>apply_modifiers := False\<rparr>
         in case getitem command (int i + 1) of
              Inl e \<Rightarrow> Raised e operators_test
            | Inr name \<Rightarrow> Returned (run_test operators_test name))
      else dispatch command todo operators_test)"

text \<open>
  \<open>main\<close>, with the constructor \<open>OperatorTest\<close> and \<open>sys.argv\<close> as arguments.
\<close>

definition main ::
  "(pyval list \<Rightarrow> 'a OperatorTest_scheme) \<Rightarrow> string list \<Rightarrow> 'a OperatorTest_scheme outcome" where
  "main OperatorTest_new argv =
     (let operators_test = OperatorTest_new tests;
          command = argv
      in dispatch command (enumerate 0 command) operators_test)"

text \<open>Shapes of a fixture entry: the one the specification words, and the one in the table.\<close>

definition mode_tag :: "string \<Rightarrow> bool" where
  "mode_tag m = (m = ''VERT'' \<or> m = ''EDGE'' \<or> m = ''FACE'')"

text \<open>Python's \<open>type(v)\<close>.\<close>

datatype pytype = Tstr | Tint | Tbool | Tfloat | Tset | Ttuple | Tlist | Tdict

fun type_of :: "pyval \<Rightarrow> pytype" where
  "type_of (PyStr s) = Tstr"
| "type_of (PyInt i) = Tint"
| "type_of (PyBool b) = Tbool"
| "type_of (PyFloat m e) = Tfloat"
| "type_of (PySet s) = Tset"
| "type_of (PyTuple xs) = Ttuple"
| "type_of (PyList xs) = Tlist"
| "type_of (PyDict d) = Tdict"

fun starts_with_mode_tag :: "pyval list \<Rightarrow> bool" where
  "starts_with_mode_tag (PyStr m # xs) = mode_tag m"
| "starts_with_mode_tag _ = False"

fun six_field_tuple :: "pyval \<Rightarrow> bool" where
  "six_field_tuple (PyTuple xs) =
     (map type_of xs = [Tstr, Tset, Tstr, Tstr, Tstr, Tdict] \<and> starts_with_mode_tag xs)"
| "six_field_tuple _ = False"

fun seven_field_list :: "pyval \<Rightarrow> bool" where
  "seven_field_list (PyList xs) =
     (map type_of xs = [Tstr, Tset, Tstr, Tstr, Tstr, Tstr, Tdict] \<and> starts_with_mode_tag xs)"
| "seven_field_list _ = False"

text \<open>The number of fields of an entry, whichever sequence type holds them.\<close>

fun n_fields :: "pyval \<Rightarrow> nat" where
  "n_fields (PyTuple xs) = length xs"
| "n_fields (PyList xs) = length xs"
| "n_fields _ = 0"

text \<open>
  Arguments among which neither flag occurs: the loop passes over them.
\<close>

definition no_flag :: "string list \<Rightarrow> bool" where
  "no_flag args = (''--run-all-tests'' \<notin> set args \<and> ''--run-test'' \<notin> set args)"

text \<open>A freshly built test object, for the concrete runs below.\<close>

definition ot0 :: OperatorTest where
  "ot0 = \<lparr>apply_modifiers = True, calls = []\<rparr>"

section \<open>release/scripts/modules/rna_user_menus_ui.py\<close>

subsection \<open>The host's objects\<close>

text \<open>
  The module works on objects of the host application: the user-menus preferences, with
  their groups, menus and items, and the user key configuration. Python's \<open>==\<close> on two
  such objects asks whether they are the same host object, so every object the module
  compares carries its identity.

  A menu item owns the items of its submenu, which makes the items of a menu a forest.
  \<open>get_submenu\<close> is what \<open>item.get_submenu()\<close> returns: \<open>None\<close>, or the submenu, given by
  its \<open>items_list\<close>.
\<close>

type_synonym ref = nat

datatype menu_item = Menu_item
  (item_ref: ref)
  (item_name: string)
  (item_type: string)
  (item_icon: string)
  (is_selected: bool)
  (get_submenu: "menu_item list option")

record menu_group =
  group_ref :: ref
  group_name :: string
  group_idname :: string
  group_type :: string

record user_menu =
  menu_items :: "menu_item list"

text \<open>
  \<open>um.active_item\<close> is a pointer of the host to one of its items, not an item of its own.
  The model keeps the identity of the item pointed to, and the two attributes the module
  reads through the pointer, \<open>type\<close> and \<open>icon\<close>, which nothing in the module assigns. The
  \<open>is_selected\<close> of the item pointed to is the flag of that item, in the menu that owns
  it: an assignment to the flag of a drawn item is an assignment to the flag of the
  active item when the two are the same object.
\<close>

record item_pointer =
  target_ref :: ref
  target_type :: string
  target_icon :: string

text \<open>
  \<open>context.preferences.user_menus\<close>. The fields \<open>has_item\<close> and \<open>get_current_menu\<close> are what
  the host's methods of these names return.
\<close>

record user_menus =
  active_group :: "menu_group option"
  active_item :: "item_pointer option"
  menus :: "menu_group list"
  expanded :: bool
  has_item :: bool
  get_current_menu :: "user_menu option"

text \<open>
  A keymap item, with the attributes the module reads or writes. \<open>kmi_properties\<close> are
  the operator properties of the item; the module reads \<open>name\<close> and writes \<open>idname\<close>.
\<close>

record operator_properties =
  prop_name :: string
  prop_idname :: string

record keymap_item =
  kmi_idname :: string
  kmi_type :: string
  kmi_value :: string
  kmi_shift :: bool
  kmi_ctrl :: bool
  kmi_alt :: bool
  kmi_map_type :: string
  kmi_active :: bool
  kmi_properties :: operator_properties

record keymap =
  km_name :: string
  keymap_items :: "keymap_item list"

text \<open>
  The part of \<open>context\<close> the module reaches: \<open>context.preferences.user_menus\<close> and
  \<open>context.window_manager.keyconfigs.user.keymaps\<close>. \<open>new_item\<close> is the keymap item
  the host's \<open>keymap_items.new\<close> starts from, before it fills in its arguments.
\<close>

record bpy_context =
  user_menus :: user_menus
  keymaps :: "keymap list"
  new_item :: keymap_item

subsection \<open>The layout calls\<close>

text \<open>
  The host objects a widget is bound to: an item, one of the three sub-objects of an
  item (\<open>get_operator()\<close>, \<open>get_menu()\<close>, \<open>get_property()\<close>), a group, the user menus,
  a keymap item.
\<close>

datatype data =
    Item ref
  | Item_operator ref
  | Item_menu ref
  | Item_property ref
  | Group ref
  | User_menus
  | Kmi keymap_item

text \<open>
  A drawing function is a sequence of calls on layout objects of the host. The model
  keeps the calls in order, with the data they are bound to and the keyword arguments
  \<open>text\<close> and \<open>icon\<close> (of \<open>prop\<close>), \<open>icon\<close> and the \<open>index\<close> assigned to the result (of
  \<open>operator\<close>); it does not keep which layout object a call is made on. \<open>Active\<close> and
  \<open>Scale_x\<close> are the two assignments to attributes of a layout (\<open>scale_x = 0.75\<close>).
\<close>

datatype widget =
    Split
  | Row
  | Column
  | Box
  | Separator
  | Label string
  | Prop data string "string option" "string option"
  | Operator string string "int option"
  | Menu string string
  | Template_user_menu_item_properties data
  | Active bool
  | Scale_x

type_synonym 'a result = "py_error + 'a"

subsection \<open>\<open>_indented_layout\<close>\<close>

text \<open>
  \<open>_indented_layout(layout, level)\<close>, which nothing in the module calls. It divides by
  \<open>bpy.context.region.width\<close>, the width of the region being drawn, where \<open>region\<close> is
  \<open>None\<close> when the host has no region; the quotient is the factor of the split, which is
  not among the layout calls kept. The outcome carries the layout calls made.
\<close>

definition indented_layout :: "int option \<Rightarrow> int \<Rightarrow> widget list outcome" where
  "indented_layout region_width level =
     (case region_width of
        None \<Rightarrow> Raised AttributeError []
      | Some width \<Rightarrow>
          if width = 0 then Raised ZeroDivisionError []
          else Returned [Split, Column, Column])"

subsection \<open>\<open>get_keymap\<close>\<close>

text \<open>
  \<open>if not idname: idname = um.active_group.idname\<close>. The argument is \<open>None\<close> or a string;
  \<open>None\<close> and the empty string are the falsy ones. Without an active group the
  attribute access fails.
\<close>

definition resolve_idname :: "bpy_context \<Rightarrow> string option \<Rightarrow> string result" where
  "resolve_idname ctx idname =
     (let um = user_menus ctx;
          of_active_group = (case active_group um of
                               None \<Rightarrow> Inl AttributeError
                             | Some g \<Rightarrow> Inr (group_idname g))
      in case idname of
           None \<Rightarrow> of_active_group
         | Some s \<Rightarrow> if s = '''' then of_active_group else Inr s)"

text \<open>The inner and the outer loop of the search; both return at the first hit.\<close>

fun search_items :: "string \<Rightarrow> keymap_item list \<Rightarrow> keymap_item option" where
  "search_items idname [] = None"
| "search_items idname (kmi # kmis) =
     (if kmi_idname kmi = ''wm.call_user_menu'' \<and> prop_name (kmi_properties kmi) = idname
      then Some kmi
      else search_items idname kmis)"

fun search_keymaps :: "string \<Rightarrow> keymap list \<Rightarrow> keymap_item option" where
  "search_keymaps idname [] = None"
| "search_keymaps idname (km # kms) =
     (case search_items idname (keymap_items km) of
        Some kmi \<Rightarrow> Some kmi
      | None \<Rightarrow> search_keymaps idname kms)"

text \<open>
  \<open>keymaps['Window']\<close>: the position of the first keymap of that name; none is a
  \<open>KeyError\<close>.
\<close>

fun keymaps_find :: "string \<Rightarrow> keymap list \<Rightarrow> nat option" where
  "keymaps_find key [] = None"
| "keymaps_find key (km # kms) =
     (if km_name km = key then Some 0 else map_option Suc (keymaps_find key kms))"

text \<open>
  Modelled from the spec: \<open>keymap_items.new(idname, type, value, shift=, ctrl=, alt=)\<close>
  of the host's keymap API, which is not among these sources. It makes a keymap item
  with these attributes, the others as the host sets them (\<open>new_item\<close> of the context);
  the item becomes the last of the keymap's items.
\<close>

definition keymap_items_new ::
  "bpy_context \<Rightarrow> string \<Rightarrow> string \<Rightarrow> string \<Rightarrow> bool \<Rightarrow> bool \<Rightarrow> bool \<Rightarrow> keymap_item" where
  "keymap_items_new ctx idname type value shift ctrl alt =
     (new_item ctx)\<lparr>kmi_idname := idname, kmi_type := type, kmi_value := value,
                     kmi_shift := shift, kmi_ctrl := ctrl, kmi_alt := alt\<rparr>"

text \<open>
  \<open>get_keymap(context, idname, ensure)\<close>. The new item belongs to the \<open>Window\<close> keymap,
  at the end of its items, and the two assignments that follow \<open>new\<close> are made on that
  item; the function returns it (\<open>None\<close> when it falls off its end). The outcome carries
  the context as the call leaves it, with the value returned (\<open>None\<close> as well when the
  call raises and returns nothing).
\<close>

definition get_keymap ::
  "bpy_context \<Rightarrow> string option \<Rightarrow> bool \<Rightarrow> (bpy_context \<times> keymap_item option) outcome" where
  "get_keymap ctx idname ensure =
     (case resolve_idname ctx idname of
        Inl e \<Rightarrow> Raised e (ctx, None)
      | Inr idname \<Rightarrow>
          (case search_keymaps idname (keymaps ctx) of
             Some kmi \<Rightarrow> Returned (ctx, Some kmi)
           | None \<Rightarrow>
               if ensure then
                 (case keymaps_find ''Window'' (keymaps ctx) of
                    None \<Rightarrow> Raised KeyError (ctx, None)
                  | Some i \<Rightarrow>
                      let km = keymaps ctx ! i;
                          kmi = keymap_items_new ctx ''wm.call_user_menu'' ''NONE'' ''ANY''
                                  False False False;
                          kmi = kmi\<lparr>kmi_properties := (kmi_properties kmi)\<lparr>prop_idname := idname\<rparr>\<rparr>;
                          kmi = kmi\<lparr>kmi_active := True\<rparr>;
                          km = km\<lparr>keymap_items := keymap_items km @ [kmi]\<rparr>
                      in Returned (ctx\<lparr>keymaps := (keymaps ctx)[i := km]\<rparr>, Some kmi))
               else Returned (ctx, None)))"

subsection \<open>\<open>draw_button\<close> and \<open>draw_item\<close>\<close>

text \<open>\<open>item == um.active_item\<close>: the same host object; nothing is the same as \<open>None\<close>.\<close>

fun same_item :: "menu_item \<Rightarrow> item_pointer option \<Rightarrow> bool" where
  "same_item item None = False"
| "same_item item (Some a) = (item_ref item = target_ref a)"

text \<open>
  \<open>draw_button(context, box, item, index)\<close> assigns \<open>item.is_selected\<close> and, for a
  submenu, draws the submenu's items through \<open>draw_item\<close>, which assigns theirs. The
  outcome of both carries the items as the assignments leave them, with the layout
  calls made, also when an exception ends the call; the assignment is taken to store
  the flag and to do nothing else.
\<close>

fun draw_button :: "bpy_context \<Rightarrow> menu_item \<Rightarrow> int \<Rightarrow> (menu_item \<times> widget list) outcome"
and draw_item :: "bpy_context \<Rightarrow> menu_item list \<Rightarrow> (menu_item list \<times> widget list) outcome"
where
  "draw_button ctx (Menu_item r nm ty ic sel sm) index =
     (let um = user_menus ctx;
          name = nm;
          name = (if name = '''' then '' '' else name);
          sel = same_item (Menu_item r nm ty ic sel sm) (active_item um);
          ws = [Column, Row];
          name = (if ty = ''SEPARATOR'' then ''___________'' else name);
          ws = ws @ [Prop (Item r) ''is_selected'' (Some name) (Some ic)]
      in if ty = ''SUBMENU'' then
           (case active_group um of
              None \<Rightarrow> Raised AttributeError (Menu_item r nm ty ic sel sm, ws)
            | Some g \<Rightarrow>
                let ws = (if group_type g = ''PIE'' \<and> 0 \<le> index
                          then ws @ [Operator ''preferences.pie_menuitem_add'' ''ADD'' (Some index),
                                     Operator ''preferences.menuitem_remove'' ''REMOVE'' None,
                                     Operator ''preferences.menuitem_up'' ''TRIA_UP'' None,
                                     Operator ''preferences.menuitem_down'' ''TRIA_DOWN'' None]
                          else ws);
                    ws = ws @ [Box, Column]
                in (case sm of
                      None \<Rightarrow> Raised AttributeError (Menu_item r nm ty ic sel sm, ws)
                    | Some items_list \<Rightarrow>
                        (case draw_item ctx items_list of
                           Raised e (items_list, ws') \<Rightarrow>
                             Raised e (Menu_item r nm ty ic sel (Some items_list), ws @ ws')
                         | Returned (items_list, ws') \<Rightarrow>
                             Returned (Menu_item r nm ty ic sel (Some items_list), ws @ ws'))))
         else Returned (Menu_item r nm ty ic sel sm, ws))"
| "draw_item ctx [] = Returned ([], [])"
| "draw_item ctx (umi # items) =
     (case draw_button ctx umi (- 1) of
        Raised e (umi, ws) \<Rightarrow> Raised e (umi # items, ws)
      | Returned (umi, ws) \<Rightarrow>
          (case draw_item ctx items of
             Raised e (items, ws') \<Rightarrow> Raised e (umi # items, ws @ ws')
           | Returned (items, ws') \<Rightarrow> Returned (umi # items, ws @ ws')))"

subsection \<open>\<open>draw_item_box\<close>\<close>

text \<open>
  The items of the current menu as a call has left them, in the context. The menu owns
  its items, and the context holds no second copy of any of them: the active item is
  held by its identity.
\<close>

definition set_menu_items :: "bpy_context \<Rightarrow> user_menu \<Rightarrow> menu_item list \<Rightarrow> bpy_context" where
  "set_menu_items ctx cm items =
     ctx\<lparr>user_menus := (user_menus ctx)\<lparr>get_current_menu := Some (cm\<lparr>menu_items := items\<rparr>)\<rparr>\<rparr>"

definition draw_item_box :: "bpy_context \<Rightarrow> (bpy_context \<times> widget list) outcome" where
  "draw_item_box ctx =
     (let um = user_menus ctx;
          ws = [Box, Column]
      in case (if \<not> has_item um then Returned (ctx, ws @ [Label ''none''])
               else (case get_current_menu um of
                       None \<Rightarrow> Raised AttributeError (ctx, ws)
                     | Some cm \<Rightarrow>
                         (case draw_item ctx (menu_items cm) of
                            Raised e (items, ws') \<Rightarrow> Raised e (set_menu_items ctx cm items, ws @ ws')
                          | Returned (items, ws') \<Rightarrow>
                              Returned (set_menu_items ctx cm items, ws @ ws')))) of
           Raised e s \<Rightarrow> Raised e s
         | Returned (ctx, ws) \<Rightarrow>
             Returned (ctx, ws @ [Split, Column,
                                  Operator ''preferences.menuitem_add'' ''ADD'' (Some (- 1)),
                                  Operator ''preferences.menuitem_remove'' ''REMOVE'' None,
                                  Operator ''preferences.menuitem_up'' ''TRIA_UP'' None,
                                  Operator ''preferences.menuitem_down'' ''TRIA_DOWN'' None,
                                  Separator]))"

subsection \<open>\<open>draw_pie_item\<close> and \<open>draw_pie\<close>\<close>

text \<open>\<open>draw_pie_item(context, col, items, label, index)\<close>; \<open>items\<close> is one item.\<close>

definition draw_pie_item ::
  "bpy_context \<Rightarrow> menu_item \<Rightarrow> string \<Rightarrow> int \<Rightarrow> (menu_item \<times> widget list) outcome" where
  "draw_pie_item ctx items label index =
     (let ws = [Row, Label label]
      in case draw_button ctx items index of
           Raised e (items, ws') \<Rightarrow> Raised e (items, ws @ ws')
         | Returned (items, ws') \<Rightarrow> Returned (items, ws @ ws'))"

text \<open>The eight calls of \<open>draw_pie\<close>, by their label and index.\<close>

definition pie_slots :: "(string \<times> nat) list" where
  "pie_slots =
     [(''Left : '', 0), (''Right : '', 1), (''Down : '', 2), (''Up : '', 3),
      (''Upper left : '', 4), (''Upper right : '', 5),
      (''Lower left : '', 6), (''Lower right : '', 7)]"

text \<open>
  One call after the other: \<open>cm.menu_items[index]\<close> is read (an \<open>IndexError\<close> when the
  menu is shorter), the item is drawn, and the next call finds it as drawn.
\<close>

fun draw_pie_items ::
  "bpy_context \<Rightarrow> menu_item list \<Rightarrow> (string \<times> nat) list \<Rightarrow> (menu_item list \<times> widget list) outcome"
where
  "draw_pie_items ctx items [] = Returned (items, [])"
| "draw_pie_items ctx items ((label, index) # slots) =
     (case getitem items (int index) of
        Inl e \<Rightarrow> Raised e (items, [])
      | Inr item \<Rightarrow>
          (case draw_pie_item ctx item label (int index) of
             Raised e (item, ws) \<Rightarrow> Raised e (items[index := item], ws)
           | Returned (item, ws) \<Rightarrow>
               (case draw_pie_items ctx (items[index := item]) slots of
                  Raised e (items, ws') \<Rightarrow> Raised e (items, ws @ ws')
                | Returned (items, ws') \<Rightarrow> Returned (items, ws @ ws'))))"

definition draw_pie :: "bpy_context \<Rightarrow> (bpy_context \<times> widget list) outcome" where
  "draw_pie ctx =
     (let um = user_menus ctx
      in case get_current_menu um of
           None \<Rightarrow> Returned (ctx, [])
         | Some cm \<Rightarrow>
             let ws = [Column]
             in (case draw_pie_items ctx (menu_items cm) pie_slots of
                   Raised e (items, ws') \<Rightarrow> Raised e (set_menu_items ctx cm items, ws @ ws')
                 | Returned (items, ws') \<Rightarrow>
                     Returned (set_menu_items ctx cm items, ws @ ws' @ [Separator])))"

subsection \<open>\<open>draw_item_editor\<close>\<close>

definition draw_item_editor :: "bpy_context \<Rightarrow> (bpy_context \<times> widget list) outcome" where
  "draw_item_editor ctx =
     (let um = user_menus ctx;
          ws = [Column]
      in if \<not> has_item um then
           Returned (ctx, ws @ [Label ''No item in this list.'',
                                Label ''Add one or choose another list to get started''])
         else
           (case active_item um of
              Some current \<Rightarrow>
                let r = target_ref current;
                    ws = ws @ [Prop (Item r) ''type'' None None];
                    ws = (if target_type current \<noteq> ''SEPARATOR''
                          then ws @ [Row,
                                     Prop (Item r) ''icon'' (Some '''') (Some (target_icon current)),
                                     Prop (Item r) ''name'' None None]
                          else ws);
                    ws = (if target_type current = ''OPERATOR''
                          then ws @ [Prop (Item_operator r) ''operator'' None None,
                                     Box,
                                     Template_user_menu_item_properties (Item_operator r)]
                          else ws);
                    ws = (if target_type current = ''MENU''
                          then ws @ [Prop (Item_menu r) ''id_name'' (Some ''ID name'') None]
                          else ws);
                    ws = (if target_type current = ''PROPERTY''
                          then ws @ [Prop (Item_property r) ''id_name'' None None,
                                     Prop (Item_property r) ''context'' None None]
                          else ws)
                in Returned (ctx, ws)
            | None \<Rightarrow> Returned (ctx, ws @ [Label ''No item selected.''])))"

subsection \<open>\<open>draw_user_menu_preference_expanded\<close> and \<open>draw_user_menu_preference\<close>\<close>

definition draw_user_menu_preference_expanded ::
  "bpy_context \<Rightarrow> keymap_item option \<Rightarrow> string option \<Rightarrow> (bpy_context \<times> widget list) outcome"
where
  "draw_user_menu_preference_expanded ctx kmi map_type =
     (let ws = [Box, Row]
      in case kmi of
           Some kmi \<Rightarrow>
             if map_type \<noteq> Some ''TEXTINPUT'' \<and> map_type \<noteq> Some ''TIMER'' then
               let ws = ws @ [Column, Row];
                   ws = (if map_type = Some ''KEYBOARD'' then
                           ws @ [Prop (Kmi kmi) ''type'' (Some '''') None,
                                 Prop (Kmi kmi) ''value'' (Some '''') None,
                                 Row,
                                 Active (kmi_value kmi = ''ANY'' \<or> kmi_value kmi = ''PRESS''),
                                 Prop (Kmi kmi) ''repeat'' (Some ''Repeat'') None]
                         else if map_type = Some ''MOUSE'' \<or> map_type = Some ''NDOF'' then
                           ws @ [Prop (Kmi kmi) ''type'' (Some '''') None,
                                 Prop (Kmi kmi) ''value'' (Some '''') None]
                         else ws)
               in Returned (ctx, ws @ [Row, Scale_x,
                                       Prop (Kmi kmi) ''any'' None None,
                                       Prop (Kmi kmi) ''shift'' None None,
                                       Prop (Kmi kmi) ''ctrl'' None None,
                                       Prop (Kmi kmi) ''alt'' None None,
                                       Prop (Kmi kmi) ''oskey'' (Some ''Cmd'') None,
                                       Prop (Kmi kmi) ''key_modifier'' (Some '''') None])
             else Returned (ctx, ws)
         | None \<Rightarrow> Returned (ctx, ws @ [Label ''No key set'']))"

text \<open>
  \<open>draw_user_menu_preference(context, layout)\<close>. \<open>um.menus[0]\<close> is an \<open>IndexError\<close>
  without a group; \<open>umg != qf\<close> holds for a \<open>umg\<close> that is \<open>None\<close>, and \<open>row.prop\<close> rejects
  \<open>None\<close> as its data.
\<close>

definition draw_user_menu_preference :: "bpy_context \<Rightarrow> (bpy_context \<times> widget list) outcome" where
  "draw_user_menu_preference ctx =
     (let um = user_menus ctx;
          umg = active_group um
      in case get_keymap ctx None False of
           Raised e (ctx, kmi) \<Rightarrow> Raised e (ctx, [])
         | Returned (ctx, kmi) \<Rightarrow>
             let map_type = None;
                 ws = [Box, Row, Prop User_menus ''expanded'' (Some '''') None]
             in (case getitem (menus um) 0 of
                   Inl e \<Rightarrow> Raised e (ctx, ws)
                 | Inr qf \<Rightarrow>
                     (case umg of
                        None \<Rightarrow> Raised TypeError (ctx, ws)
                      | Some g \<Rightarrow>
                          let ws = (if group_ref g \<noteq> group_ref qf then
                                      let pie_text = ''List'';
                                          pie_text = (if group_type g = ''PIE'' then ''Pie''
                                                      else pie_text)
                                      in ws @ [Prop (Group (group_ref g)) ''name'' None None,
                                               Prop (Group (group_ref g)) ''type'' (Some pie_text) None]
                                    else ws);
                              (map_type, ws) =
                                (case kmi of
                                   Some k \<Rightarrow>
                                     let ws = ws @ [Prop (Kmi k) ''map_type'' (Some '''') None];
                                         map_type = kmi_map_type k
                                     in (Some map_type,
                                         if map_type = ''KEYBOARD'' \<or> map_type = ''MOUSE''
                                            \<or> map_type = ''NDOF''
                                         then ws @ [Prop (Kmi k) ''type'' (Some '''') None]
                                         else if map_type = ''TWEAK''
                                         then ws @ [Row, Prop (Kmi k) ''type'' (Some '''') None,
                                                    Prop (Kmi k) ''value'' (Some '''') None]
                                         else if map_type = ''TIMER''
                                         then ws @ [Prop (Kmi k) ''type'' (Some '''') None]
                                         else ws @ [Label ''''])
                                 | None \<Rightarrow> (map_type, ws))
                          in if expanded um then
                               (case draw_user_menu_preference_expanded ctx kmi map_type of
                                  Raised e (ctx, ws') \<Rightarrow> Raised e (ctx, ws @ ws')
                                | Returned (ctx, ws') \<Rightarrow> Returned (ctx, ws @ ws'))
                             else Returned (ctx, ws))))"

subsection \<open>\<open>draw_user_menus\<close>\<close>

text \<open>
  The first statement of \<open>draw_user_menus\<close>: \<open>if not um.active_group:
  um.active_group = um.menus[0]\<close>. The function reads \<open>um.active_group\<close> twice after
  it, for the name and, once \<open>draw_user_menu_preference\<close> is back, for the type; it is
  the same group both times, since nothing in between assigns it.
\<close>

definition default_active_group :: "bpy_context \<Rightarrow> bpy_context result" where
  "default_active_group ctx =
     (let um = user_menus ctx
      in if active_group um = None then
           (case getitem (menus um) 0 of
              Inl e \<Rightarrow> Inl e
            | Inr g \<Rightarrow> Inr (ctx\<lparr>user_menus := um\<lparr>active_group := Some g\<rparr>\<rparr>))
         else Inr ctx)"

definition draw_user_menus :: "bpy_context \<Rightarrow> (bpy_context \<times> widget list) outcome" where
  "draw_user_menus ctx =
     (case default_active_group ctx of
        Inl e \<Rightarrow> Raised e (ctx, [])
      | Inr ctx \<Rightarrow>
          let ws = [Split, Row, Row]
          in (case active_group (user_menus ctx) of
                None \<Rightarrow> Raised AttributeError (ctx, ws)
              | Some g \<Rightarrow>
                  let ws = ws @ [Menu ''USERPREF_MT_menu_select'' (group_name g),
                                 Operator ''preferences.usermenus_add'' ''ADD'' None,
                                 Operator ''preferences.usermenus_remove'' ''REMOVE'' None,
                                 Row, Prop User_menus ''space_selected'' (Some '''') None,
                                 Row, Prop User_menus ''context_selected'' (Some '''') None,
                                 Row, Separator]
                  in (case draw_user_menu_preference ctx of
                        Raised e (ctx, ws') \<Rightarrow> Raised e (ctx, ws @ ws')
                      | Returned (ctx, ws') \<Rightarrow>
                          let ws = ws @ ws' @ [Row, Separator]
                          in (case (if group_type g = ''PIE'' then draw_pie ctx
                                    else draw_item_box ctx) of
                                Raised e (ctx, ws') \<Rightarrow> Raised e (ctx, ws @ ws')
                              | Returned (ctx, ws') \<Rightarrow>
                                  let ws = ws @ ws'
                                  in (case draw_item_editor ctx of
                                        Raised e (ctx, ws') \<Rightarrow> Raised e (ctx, ws @ ws')
                                      | Returned (ctx, ws') \<Rightarrow>
                                          Returned (ctx, ws @ ws' @ [Separator]))))))"

text \<open>The context a call leaves behind, however it ends.\<close>

definition final_context :: "(bpy_context \<times> 'a) outcome \<Rightarrow> bpy_context" where
  "final_context r = fst (state_of r)"

subsection \<open>What drawing leaves alone, and what it reaches\<close>

text \<open>
  The items \<open>draw_button\<close> reaches from an item: the item, and the items it reaches from
  the items of the submenu when the item is of type \<open>SUBMENU\<close>. The submenu of an item of
  another type is not reached.
\<close>

fun drawn :: "menu_item \<Rightarrow> menu_item list" where
  "drawn (Menu_item r nm ty ic sel sm) =
     Menu_item r nm ty ic sel sm #
       (if ty = ''SUBMENU''
        then (case sm of None \<Rightarrow> [] | Some items_list \<Rightarrow> concat (map drawn items_list))
        else [])"

text \<open>
  An item with \<open>is_selected\<close> cleared on the items \<open>draw_button\<close> reaches from it, and on
  no other: two items that agree after clearing differ in nothing but the \<open>is_selected\<close>
  of items that drawing reaches.
\<close>

fun unselect :: "menu_item \<Rightarrow> menu_item" where
  "unselect (Menu_item r nm ty ic sel sm) =
     Menu_item r nm ty ic False
       (if ty = ''SUBMENU'' then map_option (map unselect) sm else sm)"

text \<open>
  The same for the first \<open>n\<close> items of a list, the items after them as they are; and for
  a context, on the items of its current menu.
\<close>

definition unselect_items :: "nat \<Rightarrow> menu_item list \<Rightarrow> menu_item list" where
  "unselect_items n items = map unselect (take n items) @ drop n items"

definition unselect_context :: "nat \<Rightarrow> bpy_context \<Rightarrow> bpy_context" where
  "unselect_context n ctx =
     ctx\<lparr>user_menus := (user_menus ctx)\<lparr>get_current_menu :=
       map_option (\<lambda>cm. cm\<lparr>menu_items := unselect_items n (menu_items cm)\<rparr>)
         (get_current_menu (user_menus ctx))\<rparr>\<rparr>"


text \<open>The items of the current menu; none when there is no current menu.\<close>

definition current_items :: "bpy_context \<Rightarrow> menu_item list" where
  "current_items ctx =
     (case get_current_menu (user_menus ctx) of None \<Rightarrow> [] | Some cm \<Rightarrow> menu_items cm)"

text \<open>The first keymap item, over the keymaps in order, that \<open>get_keymap\<close> looks for.\<close>

definition first_match :: "string \<Rightarrow> keymap list \<Rightarrow> keymap_item option" where
  "first_match idname kms =
     List.find (\<lambda>kmi. kmi_idname kmi = ''wm.call_user_menu'' \<and> prop_name (kmi_properties kmi) = idname)
       (concat (map keymap_items kms))"

subsection \<open>Well-formed items\<close>

text \<open>
  An item every submenu item of which, all the way down, has its submenu:
  \<open>get_submenu()\<close> is not \<open>None\<close> on an item of type \<open>SUBMENU\<close>.
\<close>

fun well_formed :: "menu_item \<Rightarrow> bool" where
  "well_formed (Menu_item r nm ty ic sel sm) =
     (if ty = ''SUBMENU''
      then (case sm of None \<Rightarrow> False | Some items_list \<Rightarrow> list_all well_formed items_list)
      else True)"

subsection \<open>Example states\<close>

text \<open>
  Two groups, a list and a pie; a list menu of two items, the second a submenu of two;
  the separator inside the submenu is the active item. Every \<open>is_selected\<close> is stale:
  set on the three other items, clear on the active one.
\<close>

definition quick_group :: menu_group where
  "quick_group = \<lparr>group_ref = 10, group_name = ''Quick Favorites'', group_idname = ''quick'',
                   group_type = ''LIST''\<rparr>"

definition pie_group :: menu_group where
  "pie_group = \<lparr>group_ref = 11, group_name = ''Tools'', group_idname = ''tools'',
                 group_type = ''PIE''\<rparr>"

definition example_items :: "menu_item list" where
  "example_items =
     [Menu_item 1 ''Add'' ''OPERATOR'' ''ADD'' True None,
      Menu_item 2 ''More'' ''SUBMENU'' ''NONE'' True
        (Some [Menu_item 3 '''' ''SEPARATOR'' ''NONE'' False None,
               Menu_item 4 ''View'' ''MENU'' ''NONE'' True None])]"

definition example_items_drawn :: "menu_item list" where
  "example_items_drawn =
     [Menu_item 1 ''Add'' ''OPERATOR'' ''ADD'' False None,
      Menu_item 2 ''More'' ''SUBMENU'' ''NONE'' False
        (Some [Menu_item 3 '''' ''SEPARATOR'' ''NONE'' True None,
               Menu_item 4 ''View'' ''MENU'' ''NONE'' False None])]"

definition blank_item :: keymap_item where
  "blank_item = \<lparr>kmi_idname = '''', kmi_type = ''NONE'', kmi_value = ''NOTHING'',
                  kmi_shift = False, kmi_ctrl = False, kmi_alt = False,
                  kmi_map_type = ''KEYBOARD'', kmi_active = False,
                  kmi_properties = \<lparr>prop_name = '''', prop_idname = ''''\<rparr>\<rparr>"

definition quick_item :: keymap_item where
  "quick_item = \<lparr>kmi_idname = ''wm.call_user_menu'', kmi_type = ''Q'', kmi_value = ''PRESS'',
                  kmi_shift = False, kmi_ctrl = False, kmi_alt = False,
                  kmi_map_type = ''KEYBOARD'', kmi_active = True,
                  kmi_properties = \<lparr>prop_name = ''quick'', prop_idname = ''''\<rparr>\<rparr>"

definition example_context :: bpy_context where
  "example_context =
     \<lparr>user_menus =
        \<lparr>active_group = Some quick_group,
         active_item = Some \<lparr>target_ref = 3, target_type = ''SEPARATOR'', target_icon = ''NONE''\<rparr>,
         menus = [quick_group, pie_group],
         expanded = True,
         has_item = True,
         get_current_menu = Some \<lparr>menu_items = example_items\<rparr>\<rparr>,
      keymaps = [\<lparr>km_name = ''Screen'', keymap_items = [quick_item]\<rparr>,
                 \<lparr>km_name = ''Window'', keymap_items = []\<rparr>],
      new_item = blank_item\<rparr>"

text \<open>The same state before an active group was chosen.\<close>

definition unset_context :: bpy_context where
  "unset_context = example_context\<lparr>user_menus := (user_menus example_context)\<lparr>active_group := None\<rparr>\<rparr>"

text \<open>
  The pie group active, its menu of eight items, and no key bound to it; then the same
  with a menu of three items only, and with one of nine.
\<close>

definition pie_context :: bpy_context where
  "pie_context =
     example_context\<lparr>user_menus := (user_menus example_context)
       \<lparr>active_group := Some pie_group,
        get_current_menu := Some \<lparr>menu_items = example_items @ example_items @ example_items
                                               @ example_items\<rparr>\<rparr>\<rparr>"

definition short_pie_context :: bpy_context where
  "short_pie_context =
     example_context\<lparr>user_menus := (user_menus example_context)
       \<lparr>active_group := Some pie_group,
        get_current_menu := Some \<lparr>menu_items = example_items @ [hd example_items]\<rparr>\<rparr>\<rparr>"

definition long_pie_context :: bpy_context where
  "long_pie_context =
     example_context\<lparr>user_menus := (user_menus example_context)
       \<lparr>active_group := Some pie_group,
        get_current_menu := Some \<lparr>menu_items = example_items @ example_items @ example_items
                                               @ example_items @ [hd example_items]\<rparr>\<rparr>\<rparr>"

text \<open>The example state with an active group and an empty list of groups.\<close>

definition no_menus_context :: bpy_context where
  "no_menus_context = example_context\<lparr>user_menus := (user_menus example_context)\<lparr>menus := []\<rparr>\<rparr>"


section \<open>Properties of the test script\<close>

subsection \<open>The dispatch loop, by the first flag of the command line\<close>

text \<open>
  The loop passes over arguments that are not flags, so a run is decided by the first
  flag and by what follows it. Every command line has one of four shapes.
\<close>

lemma dispatch_skip:
  "no_flag (map snd ps) \<Longrightarrow> dispatch command (ps @ qs) ot = dispatch command qs ot"
  by (induction ps) (auto simp: no_flag_def)

lemma dispatch_prefix:
  assumes "no_flag pre"
  shows "dispatch command (enumerate k (pre @ cmd # rest)) ot =
         dispatch command ((k + length pre, cmd) # enumerate (Suc (k + length pre)) rest) ot"
  using dispatch_skip [of "enumerate k pre"] assms
  by (simp add: enumerate_append_eq del: dispatch.simps)

lemma getitem_after_prefix: "getitem (pre @ x # y # rest) (int (length pre) + 1) = Inr y"
  by (simp add: getitem_def nth_append Let_def nat_add_distrib)

lemma getitem_past_end: "getitem (pre @ [x]) (int (length pre) + 1) = Inl IndexError"
  by (simp add: getitem_def)

lemma main_run_all:
  "no_flag pre \<Longrightarrow> main new (pre @ ''--run-all-tests'' # rest) = Returned (run_all_tests (new tests))"
  by (simp add: main_def dispatch_prefix)

lemma main_run_test:
  "no_flag pre \<Longrightarrow> main new (pre @ ''--run-test'' # name # rest) =
     Returned (run_test ((new tests)\<lparr>apply_modifiers := False\<rparr>) name)"
  by (simp add: main_def dispatch_prefix getitem_after_prefix)

lemma main_missing_name:
  "no_flag pre \<Longrightarrow> main new (pre @ [''--run-test'']) =
     Raised IndexError ((new tests)\<lparr>apply_modifiers := False\<rparr>)"
  by (simp add: main_def dispatch_prefix getitem_past_end)

lemma main_no_flag: "no_flag argv \<Longrightarrow> main new argv = Returned (new tests)"
  using dispatch_skip [of "enumerate 0 argv" argv "[]" "new tests"]
  by (simp add: main_def)

lemma argv_cases:
  "no_flag argv
   \<or> (\<exists>pre rest. argv = pre @ ''--run-all-tests'' # rest \<and> no_flag pre)
   \<or> (\<exists>pre name rest. argv = pre @ ''--run-test'' # name # rest \<and> no_flag pre)
   \<or> (\<exists>pre. argv = pre @ [''--run-test''] \<and> no_flag pre)"
proof (cases "\<exists>c \<in> set argv. c = ''--run-all-tests'' \<or> c = ''--run-test''")
  case False
  then show ?thesis by (auto simp: no_flag_def)
next
  case True
  then obtain pre c rest where
    split: "argv = pre @ c # rest" and c: "c = ''--run-all-tests'' \<or> c = ''--run-test''"
    and pre: "\<forall>d \<in> set pre. \<not> (d = ''--run-all-tests'' \<or> d = ''--run-test'')"
    using split_list_first_prop [of argv "\<lambda>c. c = ''--run-all-tests'' \<or> c = ''--run-test''"]
    by blast
  from pre have nf: "no_flag pre" by (auto simp: no_flag_def)
  show ?thesis
  proof (cases "c = ''--run-all-tests''")
    case True
    with split nf show ?thesis by blast
  next
    case False
    with c have "c = ''--run-test''" by simp
    with split nf show ?thesis by (cases rest) auto
  qed
qed

text \<open>
  Claim C4. \<open>main\<close> scans the arguments from the left and dispatches the first
  occurrence of either flag, then stops: when \<open>--run-all-tests\<close> comes first it calls
  \<open>run_all_tests()\<close>; when \<open>--run-test\<close> comes first it calls \<open>run_test\<close> with the
  argument that follows it; without a flag it calls nothing; and whatever the command
  line, the object receives at most one call.
\<close>

theorem main_dispatches_first_flag:
  assumes "no_flag pre"
  shows "main new (pre @ ''--run-all-tests'' # rest) = Returned (run_all_tests (new tests))
       \<and> main new (pre @ ''--run-test'' # name # rest') =
           Returned (run_test ((new tests)\<lparr>apply_modifiers := False\<rparr>) name)
       \<and> main new pre = Returned (new tests)
       \<and> (\<exists>cs. calls (state_of (main new argv)) = calls (new tests) @ cs \<and> length cs \<le> 1)"
proof -
  have "\<exists>cs. calls (state_of (main new argv)) = calls (new tests) @ cs \<and> length cs \<le> 1"
    using argv_cases [of argv]
    by (auto simp: main_run_all main_run_test main_missing_name main_no_flag
        run_all_tests_def run_test_def)
  with assms show ?thesis
    by (simp add: main_run_all main_run_test main_no_flag)
qed

text \<open>
  The theorem at the command lines \<open>blender -- --run-all-tests --run-test CubeBisect\<close>,
  \<open>blender -- --run-test CubeBisect --run-all-tests\<close> and \<open>blender --\<close>.
\<close>

theorem main_dispatches_first_flag_witness:
  "no_flag [''blender'', ''--'']
   \<and> main (\<lambda>ts. ot0) [''blender'', ''--'', ''--run-all-tests'', ''--run-test'', ''CubeBisect''] =
       Returned \<lparr>apply_modifiers = True, calls = [(Run_all_tests, True)]\<rparr>
   \<and> main (\<lambda>ts. ot0) [''blender'', ''--'', ''--run-test'', ''CubeBisect'', ''--run-all-tests''] =
       Returned \<lparr>apply_modifiers = False, calls = [(Run_test ''CubeBisect'', False)]\<rparr>
   \<and> main (\<lambda>ts. ot0) [''blender'', ''--''] = Returned ot0"
proof -
  have nf: "no_flag [''blender'', ''--'']" by (simp add: no_flag_def)
  show ?thesis
    using nf main_dispatches_first_flag [OF nf, where new = "\<lambda>ts. ot0"
        and rest = "[''--run-test'', ''CubeBisect'']" and name = "''CubeBisect''"
        and rest' = "[''--run-all-tests'']" and argv = "[]"]
    by (simp add: run_all_tests_def run_test_def ot0_def)
qed

text \<open>
  Claim C2, as the specification states it: for every command line whose last element
  is \<open>--run-test\<close>, the access \<open>command[i + 1]\<close> is out of range. It is not: on
  \<open>--run-test --run-test\<close> the loop stops at the first element, \<open>command[1]\<close> is in
  range, and the test named \<open>--run-test\<close> is run; and on
  \<open>blender --run-all-tests --run-test\<close> the loop stops at \<open>--run-all-tests\<close> and never
  reaches the last element.
\<close>

theorem main_last_run_test_counterexample:
  "last [''--run-test'', ''--run-test''] = ''--run-test''
   \<and> getitem [''--run-test'', ''--run-test''] (int 0 + 1) = Inr ''--run-test''
   \<and> main (\<lambda>ts. ot0) [''--run-test'', ''--run-test''] =
       Returned \<lparr>apply_modifiers = False, calls = [(Run_test ''--run-test'', False)]\<rparr>
   \<and> last [''blender'', ''--run-all-tests'', ''--run-test''] = ''--run-test''
   \<and> main (\<lambda>ts. ot0) [''blender'', ''--run-all-tests'', ''--run-test''] =
       Returned \<lparr>apply_modifiers = True, calls = [(Run_all_tests, True)]\<rparr>"
  by (simp add: main_def getitem_def run_test_def run_all_tests_def ot0_def)

text \<open>
  Claim C2, amended. The dispatch loop raises on exactly the command lines whose first
  flag is \<open>--run-test\<close> standing as the last element; the exception is then the
  \<open>IndexError\<close> of \<open>command[i + 1]\<close>, raised after \<open>apply_modifiers\<close> was set to
  \<open>False\<close> and before any call. The loop has no other failure of its own.
\<close>

theorem main_raises_iff:
  "((\<exists>e s. main new argv = Raised e s) \<longleftrightarrow> (\<exists>pre. argv = pre @ [''--run-test''] \<and> no_flag pre))
   \<and> (main new argv = Raised e s \<longrightarrow>
        e = IndexError \<and> s = (new tests)\<lparr>apply_modifiers := False\<rparr>)"
proof -
  have raised: "e = IndexError \<and> s = (new tests)\<lparr>apply_modifiers := False\<rparr>
                  \<and> (\<exists>pre. argv = pre @ [''--run-test''] \<and> no_flag pre)"
    if "main new argv = Raised e s" for e s
    using argv_cases [of argv] that
    by (auto simp: main_run_all main_run_test main_missing_name main_no_flag)
  have "\<exists>e s. main new argv = Raised e s"
    if "\<exists>pre. argv = pre @ [''--run-test''] \<and> no_flag pre"
    using that by (auto simp: main_missing_name)
  with raised show ?thesis by blast
qed

text \<open>The theorem at the command line \<open>blender --run-test\<close>.\<close>

theorem main_raises_iff_witness:
  "main (\<lambda>ts. ot0) [''blender'', ''--run-test''] = Raised IndexError (ot0\<lparr>apply_modifiers := False\<rparr>)"
proof -
  have "\<exists>pre. [''blender'', ''--run-test''] = pre @ [''--run-test''] \<and> no_flag pre"
    by (rule exI [of _ "[''blender'']"]) (simp add: no_flag_def)
  then obtain e s where r: "main (\<lambda>ts. ot0) [''blender'', ''--run-test''] = Raised e s"
    using main_raises_iff [of "\<lambda>ts. ot0" "[''blender'', ''--run-test'']"] by blast
  with main_raises_iff [of "\<lambda>ts. ot0" "[''blender'', ''--run-test'']" e s]
  show ?thesis by simp
qed

text \<open>
  Claim C9. \<open>main\<close> sets \<open>apply_modifiers\<close> to \<open>False\<close> only in the \<open>--run-test\<close>
  branch, and before it calls \<open>run_test\<close> (the callee finds \<open>False\<close>); in the
  \<open>--run-all-tests\<close> branch the script writes no attribute of the object, and without
  a flag the object is as it was built. No run writes any other attribute.
\<close>

theorem main_apply_modifiers:
  assumes "no_flag pre"
  shows "state_of (main new (pre @ ''--run-test'' # name # rest')) =
           (new tests)\<lparr>apply_modifiers := False,
                         calls := calls (new tests) @ [(Run_test name, False)]\<rparr>
       \<and> state_of (main new (pre @ ''--run-all-tests'' # rest)) =
           (new tests)\<lparr>calls := calls (new tests) @ [(Run_all_tests, apply_modifiers (new tests))]\<rparr>
       \<and> state_of (main new pre) = new tests
       \<and> (apply_modifiers (state_of (main new argv)) \<noteq> apply_modifiers (new tests) \<longrightarrow>
            (\<exists>pre rest. argv = pre @ ''--run-test'' # rest \<and> no_flag pre))
       \<and> OperatorTest.more (state_of (main new argv)) = OperatorTest.more (new tests)"
proof -
  have only: "apply_modifiers (state_of (main new argv)) \<noteq> apply_modifiers (new tests) \<longrightarrow>
            (\<exists>pre rest. argv = pre @ ''--run-test'' # rest \<and> no_flag pre)"
    using argv_cases [of argv]
    by (auto simp: main_run_all main_run_test main_missing_name main_no_flag
        run_all_tests_def run_test_def)
  have more: "OperatorTest.more (state_of (main new argv)) = OperatorTest.more (new tests)"
    using argv_cases [of argv]
    by (auto simp: main_run_all main_run_test main_missing_name main_no_flag
        run_all_tests_def run_test_def)
  from assms only more show ?thesis
    by (simp add: main_run_all main_run_test main_no_flag run_all_tests_def run_test_def)
qed

text \<open>
  The theorem at \<open>blender --run-test CubeInset\<close>, \<open>blender --run-all-tests\<close> and
  \<open>blender\<close>.
\<close>

theorem main_apply_modifiers_witness:
  "no_flag [''blender'']
   \<and> state_of (main (\<lambda>ts. ot0) [''blender'', ''--run-test'', ''CubeInset'']) =
       \<lparr>apply_modifiers = False, calls = [(Run_test ''CubeInset'', False)]\<rparr>
   \<and> state_of (main (\<lambda>ts. ot0) [''blender'', ''--run-all-tests'']) =
       \<lparr>apply_modifiers = True, calls = [(Run_all_tests, True)]\<rparr>
   \<and> state_of (main (\<lambda>ts. ot0) [''blender'']) = ot0"
proof -
  have nf: "no_flag [''blender'']" by (simp add: no_flag_def)
  show ?thesis
    using nf main_apply_modifiers [OF nf, where new = "\<lambda>ts. ot0" and name = "''CubeInset''"
        and rest = "[]" and rest' = "[]" and argv = "[]"]
    by (simp add: ot0_def)
qed

subsection \<open>The fixture table\<close>

text \<open>
  Claim C6, as the specification states it: every entry of \<open>tests\<close> is a tuple of six
  fields (mode tag, index set, test name, expected-result name, operator name,
  parameter dict). The first entry already is not: it is a list, and it has seven
  fields.
\<close>

theorem tests_not_six_field_tuples_counterexample:
  "\<not> six_field_tuple (hd tests) \<and> n_fields (hd tests) = 7"
  by (simp add: tests_def)

text \<open>
  Claim C6, amended. Every one of the 36 entries of \<open>tests\<close> is a list of exactly seven
  fields, in this order: a selection mode tag (one of \<open>VERT\<close>, \<open>EDGE\<close>, \<open>FACE\<close>), a
  set of element indices, a test name, a test-object name, an expected-object name, an
  operator name and a parameter dict.
\<close>

theorem tests_seven_fields:
  "list_all seven_field_list tests \<and> list_all (\<lambda>e. n_fields e = 7) tests \<and> length tests = 36"
  by (simp add: tests_def mode_tag_def)

section \<open>Properties of the user-menus UI module\<close>

subsection \<open>\<open>get_keymap\<close>\<close>

text \<open>
  The two loops of the search find the first matching item of the keymaps taken in
  order, and \<open>keymaps_find\<close> the first keymap of the name.
\<close>

lemma find_append_case:
  "List.find P (xs @ ys) = (case List.find P xs of Some x \<Rightarrow> Some x | None \<Rightarrow> List.find P ys)"
  by (induction xs) auto

lemma search_items_find:
  "search_items idname kmis =
     List.find (\<lambda>kmi. kmi_idname kmi = ''wm.call_user_menu'' \<and> prop_name (kmi_properties kmi) = idname) kmis"
  by (induction kmis) auto

lemma search_keymaps_first_match: "search_keymaps idname kms = first_match idname kms"
  by (induction kms) (auto simp: first_match_def find_append_case search_items_find split: option.splits)

lemma keymaps_find_Some:
  "keymaps_find key kms = Some i \<Longrightarrow>
     i < length kms \<and> km_name (kms ! i) = key \<and> (\<forall>j<i. km_name (kms ! j) \<noteq> key)"
proof (induction kms arbitrary: i)
  case Nil
  then show ?case by simp
next
  case (Cons km kms)
  show ?case
  proof (cases "km_name km = key")
    case True
    with Cons.prems show ?thesis by simp
  next
    case False
    with Cons.prems obtain k where k: "keymaps_find key kms = Some k" and i: "i = Suc k"
      by auto
    from Cons.IH [OF k] False i show ?thesis
      by (auto simp: less_Suc_eq_0_disj)
  qed
qed

text \<open>
  Without \<open>ensure\<close> the function writes nothing, however it ends; with it, it writes
  at most one thing: the new item at the end of the \<open>Window\<close> keymap. Without an idname
  and without an active group it raises \<open>AttributeError\<close>.
\<close>

lemma get_keymap_no_ensure: "final_context (get_keymap ctx idname False) = ctx"
  by (simp add: get_keymap_def final_context_def split: sum.splits option.splits)


lemma get_keymap_returns:
  "active_group (user_menus ctx) = Some g \<Longrightarrow> \<exists>kmi. get_keymap ctx None False = Returned (ctx, kmi)"
  by (simp add: get_keymap_def resolve_idname_def split: option.splits)

lemma get_keymap_no_group:
  "(idname = None \<or> idname = Some '''') \<and> active_group (user_menus ctx) = None \<Longrightarrow>
     get_keymap ctx idname ensure = Raised AttributeError (ctx, None)"
  by (auto simp: get_keymap_def resolve_idname_def)

text \<open>
  Claim C8. \<open>get_keymap\<close> resolves an empty or \<open>None\<close> idname to the idname of the
  active group and takes any other idname as it is given (\<open>idn\<close> is the idname so
  resolved). It returns the first keymap item, over the user keymaps in order, whose
  idname is \<open>wm.call_user_menu\<close> and whose \<open>properties.name\<close> is \<open>idn\<close>. When there is
  none it returns \<open>None\<close> if \<open>ensure\<close> is false; if \<open>ensure\<close> is true it adds to the
  \<open>Window\<close> keymap a new item for \<open>wm.call_user_menu\<close> with type \<open>NONE\<close> (value \<open>ANY\<close>,
  no modifier), sets its \<open>properties.idname\<close> to \<open>idn\<close>, leaving \<open>properties.name\<close> as
  the host made it, marks it active, and returns it; without a \<open>Window\<close> keymap,
  \<open>keymaps['Window']\<close> raises \<open>KeyError\<close> and nothing is written.
\<close>

theorem get_keymap_spec:
  assumes "(idname = Some idn \<and> idn \<noteq> '''')
         \<or> ((idname = None \<or> idname = Some '''')
            \<and> (\<exists>g. active_group (user_menus ctx) = Some g \<and> group_idname g = idn))"
  shows "(first_match idn (keymaps ctx) = Some kmi \<longrightarrow>
            get_keymap ctx idname ensure = Returned (ctx, Some kmi))
       \<and> (first_match idn (keymaps ctx) = None \<longrightarrow>
            get_keymap ctx idname False = Returned (ctx, None))
       \<and> (first_match idn (keymaps ctx) = None \<and> keymaps_find ''Window'' (keymaps ctx) = Some i \<longrightarrow>
            km_name (keymaps ctx ! i) = ''Window'' \<and>
            (let km = keymaps ctx ! i;
                 kmi = (new_item ctx)\<lparr>kmi_idname := ''wm.call_user_menu'', kmi_type := ''NONE'',
                         kmi_value := ''ANY'', kmi_shift := False, kmi_ctrl := False, kmi_alt := False,
                         kmi_properties := (kmi_properties (new_item ctx))\<lparr>prop_idname := idn\<rparr>,
                         kmi_active := True\<rparr>
             in get_keymap ctx idname True =
                  Returned (ctx\<lparr>keymaps := (keymaps ctx)[i := km\<lparr>keymap_items := keymap_items km @ [kmi]\<rparr>]\<rparr>,
                            Some kmi)))
       \<and> (first_match idn (keymaps ctx) = None \<and> keymaps_find ''Window'' (keymaps ctx) = None \<longrightarrow>
            get_keymap ctx idname True = Raised KeyError (ctx, None))"
proof -
  from assms have r: "resolve_idname ctx idname = Inr idn"
    by (auto simp: resolve_idname_def)
  from r keymaps_find_Some [of "''Window''" "keymaps ctx" i] show ?thesis
    by (auto simp: get_keymap_def search_keymaps_first_match keymap_items_new_def Let_def)
qed

text \<open>
  The theorem on the example states, where the list group is active and has its key and
  the pie group has none: the key is found for no idname and for the idname \<open>quick\<close>;
  the idname \<open>tools\<close>, which is not that of the active group, finds nothing, and with
  \<open>ensure\<close> the new item goes into the \<open>Window\<close> keymap, its \<open>properties.idname\<close> that
  idname and its \<open>properties.name\<close> still empty; on the pie state the empty idname
  resolves to \<open>tools\<close>, and the idname \<open>quick\<close> still finds the key of the list
  group.
\<close>

theorem get_keymap_spec_witness:
  "first_match ''quick'' (keymaps example_context) = Some quick_item
   \<and> get_keymap example_context None False = Returned (example_context, Some quick_item)
   \<and> get_keymap example_context (Some ''quick'') True = Returned (example_context, Some quick_item)
   \<and> first_match ''tools'' (keymaps example_context) = None
   \<and> get_keymap example_context (Some ''tools'') False = Returned (example_context, None)
   \<and> keymaps_find ''Window'' (keymaps example_context) = Some 1
   \<and> get_keymap example_context (Some ''tools'') True =
       Returned (example_context\<lparr>keymaps :=
              [\<lparr>km_name = ''Screen'', keymap_items = [quick_item]\<rparr>,
               \<lparr>km_name = ''Window'',
                keymap_items = [blank_item\<lparr>kmi_idname := ''wm.call_user_menu'', kmi_value := ''ANY'',
                                  kmi_active := True,
                                  kmi_properties := \<lparr>prop_name = '''', prop_idname = ''tools''\<rparr>\<rparr>]\<rparr>]\<rparr>,
            Some (blank_item\<lparr>kmi_idname := ''wm.call_user_menu'', kmi_value := ''ANY'',
                    kmi_active := True,
                    kmi_properties := \<lparr>prop_name = '''', prop_idname = ''tools''\<rparr>\<rparr>))
   \<and> active_group (user_menus pie_context) = Some pie_group
   \<and> group_idname pie_group = ''tools''
   \<and> get_keymap pie_context (Some '''') False = Returned (pie_context, None)
   \<and> get_keymap pie_context (Some ''quick'') False = Returned (pie_context, Some quick_item)"
proof -
  have f1: "first_match ''quick'' (keymaps example_context) = Some quick_item"
    by (simp add: first_match_def example_context_def quick_item_def)
  have f2: "first_match ''tools'' (keymaps example_context) = None"
    by (simp add: first_match_def example_context_def quick_item_def)
  have f3: "first_match ''tools'' (keymaps pie_context) = None"
    by (simp add: first_match_def pie_context_def example_context_def quick_item_def)
  have f4: "first_match ''quick'' (keymaps pie_context) = Some quick_item"
    by (simp add: first_match_def pie_context_def example_context_def quick_item_def)
  have w: "keymaps_find ''Window'' (keymaps example_context) = Some 1"
    by (simp add: example_context_def)
  have a1: "active_group (user_menus example_context) = Some quick_group"
    by (simp add: example_context_def)
  have a2: "active_group (user_menus pie_context) = Some pie_group"
    by (simp add: pie_context_def)
  have n1: "group_idname quick_group = ''quick''" by (simp add: quick_group_def)
  have n2: "group_idname pie_group = ''tools''" by (simp add: pie_group_def)
  from get_keymap_spec [of None "''quick''" example_context quick_item False 0] a1 n1 f1
  have g1: "get_keymap example_context None False = Returned (example_context, Some quick_item)"
    by simp
  from get_keymap_spec [of "Some ''quick''" "''quick''" example_context quick_item True 0] f1
  have g2: "get_keymap example_context (Some ''quick'') True =
      Returned (example_context, Some quick_item)"
    by simp
  from get_keymap_spec [of "Some ''tools''" "''tools''" example_context quick_item False 1] f2 w
  have g3: "get_keymap example_context (Some ''tools'') False = Returned (example_context, None)"
    and g4: "let km = keymaps example_context ! 1;
                 kmi = (new_item example_context)\<lparr>kmi_idname := ''wm.call_user_menu'',
                         kmi_type := ''NONE'', kmi_value := ''ANY'', kmi_shift := False,
                         kmi_ctrl := False, kmi_alt := False,
                         kmi_properties :=
                           (kmi_properties (new_item example_context))\<lparr>prop_idname := ''tools''\<rparr>,
                         kmi_active := True\<rparr>
             in get_keymap example_context (Some ''tools'') True =
                  Returned (example_context\<lparr>keymaps :=
                         (keymaps example_context)[1 := km\<lparr>keymap_items := keymap_items km @ [kmi]\<rparr>]\<rparr>,
                       Some kmi)"
    by simp_all
  from g4 have g5: "get_keymap example_context (Some ''tools'') True =
       Returned (example_context\<lparr>keymaps :=
              [\<lparr>km_name = ''Screen'', keymap_items = [quick_item]\<rparr>,
               \<lparr>km_name = ''Window'',
                keymap_items = [blank_item\<lparr>kmi_idname := ''wm.call_user_menu'', kmi_value := ''ANY'',
                                  kmi_active := True,
                                  kmi_properties := \<lparr>prop_name = '''', prop_idname = ''tools''\<rparr>\<rparr>]\<rparr>]\<rparr>,
            Some (blank_item\<lparr>kmi_idname := ''wm.call_user_menu'', kmi_value := ''ANY'',
                    kmi_active := True,
                    kmi_properties := \<lparr>prop_name = '''', prop_idname = ''tools''\<rparr>\<rparr>))"
    by (simp add: example_context_def blank_item_def Let_def)
  from get_keymap_spec [of "Some ''''" "''tools''" pie_context quick_item False 0] a2 n2 f3
  have g6: "get_keymap pie_context (Some '''') False = Returned (pie_context, None)"
    by simp
  from get_keymap_spec [of "Some ''quick''" "''quick''" pie_context quick_item False 0] f4
  have g7: "get_keymap pie_context (Some ''quick'') False = Returned (pie_context, Some quick_item)"
    by simp
  from f1 g1 g2 f2 g3 w g5 a2 n2 g6 g7 show ?thesis by (intro conjI)
qed

subsection \<open>\<open>draw_item_editor\<close>\<close>

text \<open>
  The layout calls of the editor for an active item, one block per test of the type
  tag.
\<close>

lemma draw_item_editor_widgets:
  assumes "has_item (user_menus ctx)" and "active_item (user_menus ctx) = Some current"
  shows "draw_item_editor ctx =
     Returned (ctx,
       [Column, Prop (Item (target_ref current)) ''type'' None None] @
       (if target_type current = ''SEPARATOR'' then []
        else [Row, Prop (Item (target_ref current)) ''icon'' (Some '''') (Some (target_icon current)),
              Prop (Item (target_ref current)) ''name'' None None]) @
       (if target_type current = ''OPERATOR''
        then [Prop (Item_operator (target_ref current)) ''operator'' None None, Box,
              Template_user_menu_item_properties (Item_operator (target_ref current))]
        else []) @
       (if target_type current = ''MENU''
        then [Prop (Item_menu (target_ref current)) ''id_name'' (Some ''ID name'') None]
        else []) @
       (if target_type current = ''PROPERTY''
        then [Prop (Item_property (target_ref current)) ''id_name'' None None,
              Prop (Item_property (target_ref current)) ''context'' None None]
        else []))"
  using assms by (simp add: draw_item_editor_def Let_def)

text \<open>
  Claim C7. \<open>draw_item_editor\<close> branches on the type tag of the active item only. With
  items and an active item it always emits the type selector; the icon and the name
  widget exactly when the type is not \<open>SEPARATOR\<close>; the operator widget and the operator
  properties exactly when it is \<open>OPERATOR\<close>; the \<open>id_name\<close> widget of the menu exactly
  when it is \<open>MENU\<close>; the \<open>id_name\<close> and \<open>context\<close> widgets of the property exactly when
  it is \<open>PROPERTY\<close>. Without items it emits the two help labels, and with items but
  no active item the label \<open>No item selected.\<close>
\<close>

theorem draw_item_editor_by_type:
  "(\<not> has_item (user_menus ctx) \<longrightarrow>
      draw_item_editor ctx =
        Returned (ctx, [Column, Label ''No item in this list.'',
                        Label ''Add one or choose another list to get started'']))
   \<and> (has_item (user_menus ctx) \<and> active_item (user_menus ctx) = None \<longrightarrow>
      draw_item_editor ctx = Returned (ctx, [Column, Label ''No item selected.'']))
   \<and> (has_item (user_menus ctx) \<and> active_item (user_menus ctx) = Some current \<longrightarrow>
      (\<exists>ws. draw_item_editor ctx = Returned (ctx, ws)
        \<and> Prop (Item (target_ref current)) ''type'' None None \<in> set ws
        \<and> (Prop (Item (target_ref current)) ''icon'' (Some '''') (Some (target_icon current)) \<in> set ws
             \<longleftrightarrow> target_type current \<noteq> ''SEPARATOR'')
        \<and> (Prop (Item (target_ref current)) ''name'' None None \<in> set ws
             \<longleftrightarrow> target_type current \<noteq> ''SEPARATOR'')
        \<and> (Prop (Item_operator (target_ref current)) ''operator'' None None \<in> set ws
             \<longleftrightarrow> target_type current = ''OPERATOR'')
        \<and> (Template_user_menu_item_properties (Item_operator (target_ref current)) \<in> set ws
             \<longleftrightarrow> target_type current = ''OPERATOR'')
        \<and> (Prop (Item_menu (target_ref current)) ''id_name'' (Some ''ID name'') None \<in> set ws
             \<longleftrightarrow> target_type current = ''MENU'')
        \<and> (Prop (Item_property (target_ref current)) ''id_name'' None None \<in> set ws
             \<longleftrightarrow> target_type current = ''PROPERTY'')
        \<and> (Prop (Item_property (target_ref current)) ''context'' None None \<in> set ws
             \<longleftrightarrow> target_type current = ''PROPERTY'')))"
proof (intro conjI impI)
  assume "has_item (user_menus ctx) \<and> active_item (user_menus ctx) = Some current"
  then show "\<exists>ws. draw_item_editor ctx = Returned (ctx, ws)
        \<and> Prop (Item (target_ref current)) ''type'' None None \<in> set ws
        \<and> (Prop (Item (target_ref current)) ''icon'' (Some '''') (Some (target_icon current)) \<in> set ws
             \<longleftrightarrow> target_type current \<noteq> ''SEPARATOR'')
        \<and> (Prop (Item (target_ref current)) ''name'' None None \<in> set ws
             \<longleftrightarrow> target_type current \<noteq> ''SEPARATOR'')
        \<and> (Prop (Item_operator (target_ref current)) ''operator'' None None \<in> set ws
             \<longleftrightarrow> target_type current = ''OPERATOR'')
        \<and> (Template_user_menu_item_properties (Item_operator (target_ref current)) \<in> set ws
             \<longleftrightarrow> target_type current = ''OPERATOR'')
        \<and> (Prop (Item_menu (target_ref current)) ''id_name'' (Some ''ID name'') None \<in> set ws
             \<longleftrightarrow> target_type current = ''MENU'')
        \<and> (Prop (Item_property (target_ref current)) ''id_name'' None None \<in> set ws
             \<longleftrightarrow> target_type current = ''PROPERTY'')
        \<and> (Prop (Item_property (target_ref current)) ''context'' None None \<in> set ws
             \<longleftrightarrow> target_type current = ''PROPERTY'')"
    by (simp add: draw_item_editor_widgets)
qed (simp_all add: draw_item_editor_def)

text \<open>
  The theorem on the example state, whose active item is a separator: the type
  selector and nothing else.
\<close>

theorem draw_item_editor_by_type_witness:
  "has_item (user_menus example_context)
   \<and> active_item (user_menus example_context) = Some \<lparr>target_ref = 3, target_type = ''SEPARATOR'', target_icon = ''NONE''\<rparr>
   \<and> draw_item_editor example_context =
       Returned (example_context, [Column, Prop (Item 3) ''type'' None None])
   \<and> Prop (Item 3) ''name'' None None \<notin> set [Column, Prop (Item 3) ''type'' None None]"
proof -
  let ?cur = "\<lparr>target_ref = 3, target_type = ''SEPARATOR'', target_icon = ''NONE''\<rparr>"
  have h: "has_item (user_menus example_context) \<and> active_item (user_menus example_context) = Some ?cur"
    by (simp add: example_context_def)
  with draw_item_editor_by_type [of example_context ?cur] obtain ws where
    d: "draw_item_editor example_context = Returned (example_context, ws)"
    and n: "Prop (Item (target_ref ?cur)) ''name'' None None \<in> set ws \<longleftrightarrow> target_type ?cur \<noteq> ''SEPARATOR''"
    by blast
  have e: "draw_item_editor example_context =
       Returned (example_context, [Column, Prop (Item 3) ''type'' None None])"
    by (simp add: draw_item_editor_def example_context_def Let_def)
  with d have "ws = [Column, Prop (Item 3) ''type'' None None]" by simp
  with n h e show ?thesis by simp
qed

subsection \<open>\<open>draw_button\<close> and \<open>draw_item\<close>\<close>

text \<open>
  Induction over an item and over a list of items together, following the two
  functions: an item may assume the property of the items of its submenu.
\<close>

lemma draw_induct [case_names button nil cons]:
  assumes button: "\<And>r nm ty ic sel sm index.
      (\<And>xs. sm = Some xs \<Longrightarrow> Q xs) \<Longrightarrow> P (Menu_item r nm ty ic sel sm) index"
    and nil: "Q []"
    and cons: "\<And>umi items. P umi (- 1) \<Longrightarrow> Q items \<Longrightarrow> Q (umi # items)"
  shows "P item index" and "Q items"
proof -
  have P: "P item index" for item index
  proof (induction item arbitrary: index)
    case (Menu_item r nm ty ic sel sm)
    show ?case
    proof (rule button)
      fix xs
      assume "sm = Some xs"
      then have "P x i" if "x \<in> set xs" for x i
        using Menu_item that by simp
      then show "Q xs"
        by (induction xs) (simp_all add: nil cons)
    qed
  qed
  show "P item index" by (rule P)
  show "Q items" by (induction items) (simp_all add: nil cons P)
qed

text \<open>
  What a call that returned has done.
\<close>

lemma draw_button_Returned:
  "draw_button ctx (Menu_item r nm ty ic sel sm) index = Returned (item', ws) \<Longrightarrow>
     (ty \<noteq> ''SUBMENU'' \<and>
        item' = Menu_item r nm ty ic
                  (same_item (Menu_item r nm ty ic sel sm) (active_item (user_menus ctx))) sm)
     \<or> (ty = ''SUBMENU'' \<and>
          (\<exists>xs xs' ws'. sm = Some xs \<and> draw_item ctx xs = Returned (xs', ws') \<and>
             item' = Menu_item r nm ty ic
                       (same_item (Menu_item r nm ty ic sel sm) (active_item (user_menus ctx)))
                       (Some xs')))"
  by (simp add: Let_def split: if_splits option.splits outcome.splits prod.splits)

lemma draw_item_Returned:
  "draw_item ctx (umi # items) = Returned (items', ws) \<Longrightarrow>
     \<exists>umi' ws1 rest ws2. draw_button ctx umi (- 1) = Returned (umi', ws1) \<and>
        draw_item ctx items = Returned (rest, ws2) \<and> items' = umi' # rest"
  by (simp split: outcome.splits prod.splits)

text \<open>
  However they end, the two functions change \<open>is_selected\<close> flags of items they reach
  and nothing else. When they return, every item they reached, and no other, has the
  flag that says whether it is the active item; and they return when there is an active
  group and every submenu item has its submenu.
\<close>

lemma draw_unselect:
  "unselect (fst (state_of (draw_button ctx item index))) = unselect item"
  "map unselect (fst (state_of (draw_item ctx items))) = map unselect items"
proof (induction item index and items rule: draw_induct)
  case (button r nm ty ic sel sm index)
  show ?case
  proof (cases sm)
    case None
    then show ?thesis by (simp add: Let_def split: option.splits)
  next
    case (Some xs)
    with button have "map unselect (fst (state_of (draw_item ctx xs))) = map unselect xs"
      by simp
    with Some show ?thesis
      by (auto simp: Let_def split: option.splits outcome.splits)
  qed
next
  case nil
  show ?case by simp
next
  case (cons umi items)
  then show ?case
    by (auto split: outcome.splits)
qed


lemma draw_selected:
  "\<forall>item' ws. draw_button ctx item index = Returned (item', ws) \<longrightarrow>
     list_all (\<lambda>it. is_selected it = same_item it (active_item (user_menus ctx))) (drawn item')"
  "\<forall>items' ws'. draw_item ctx items = Returned (items', ws') \<longrightarrow>
     list_all (\<lambda>it. is_selected it = same_item it (active_item (user_menus ctx)))
       (concat (map drawn items'))"
proof (induction item index and items rule: draw_induct)
  case (button r nm ty ic sel sm index)
  have same: "same_item x a = (\<exists>y. a = Some y \<and> item_ref x = target_ref y)"
    for x a by (cases a) auto
  show ?case
  proof (intro allI impI)
    fix item' ws
    assume "draw_button ctx (Menu_item r nm ty ic sel sm) index = Returned (item', ws)"
    from draw_button_Returned [OF this] button
    show "list_all (\<lambda>it. is_selected it = same_item it (active_item (user_menus ctx))) (drawn item')"
      by (auto simp: same)
  qed
next
  case nil
  show ?case by simp
next
  case (cons umi items)
  show ?case
  proof (intro allI impI)
    fix items' ws'
    assume "draw_item ctx (umi # items) = Returned (items', ws')"
    from draw_item_Returned [OF this] cons
    show "list_all (\<lambda>it. is_selected it = same_item it (active_item (user_menus ctx)))
       (concat (map drawn items'))"
      by auto
  qed
qed

lemma well_formed_unselect: "well_formed (unselect item) = well_formed item"
  by (induction item rule: unselect.induct) (auto simp: list_all_iff split: option.splits)

lemma draw_returns:
  assumes "active_group (user_menus ctx) = Some g"
  shows "well_formed item \<longrightarrow> (\<exists>r. draw_button ctx item index = Returned r)"
    and "list_all well_formed items \<longrightarrow> (\<exists>r. draw_item ctx items = Returned r)"
proof (induction item index and items rule: draw_induct)
  case (button r nm ty ic sel sm index)
  show ?case
  proof (cases "ty = ''SUBMENU''")
    case False
    then show ?thesis by (simp add: Let_def)
  next
    case True
    show ?thesis
    proof
      assume "well_formed (Menu_item r nm ty ic sel sm)"
      with True obtain xs where sm: "sm = Some xs" and "list_all well_formed xs"
        by (auto split: option.splits)
      with button obtain xs' ws' where "draw_item ctx xs = Returned (xs', ws')" by auto
      with True sm assms
      show "\<exists>res. draw_button ctx (Menu_item r nm ty ic sel sm) index = Returned res"
        by (simp add: Let_def)
    qed
  qed
next
  case nil
  show ?case by simp
next
  case (cons umi items)
  then show ?case by auto
qed

lemma draw_item_example:
  "\<exists>ws. draw_item example_context example_items = Returned (example_items_drawn, ws)"
  by (simp add: example_context_def example_items_def example_items_drawn_def Let_def
      quick_group_def)

text \<open>
  Claim C10. After \<open>draw_item\<close> has run over a list of items (and after \<open>draw_button\<close>
  has run on an item), \<open>is_selected\<close> of every item drawn says whether the item is
  \<open>um.active_item\<close>: true for the active item, false for every other, whatever the
  flags were before; the items are otherwise as they were.
\<close>

theorem draw_item_reestablishes_selection:
  "(\<forall>items' ws. draw_item ctx items = Returned (items', ws) \<longrightarrow>
      list_all (\<lambda>it. is_selected it = same_item it (active_item (user_menus ctx)))
        (concat (map drawn items'))
      \<and> map unselect items' = map unselect items)
   \<and> (\<forall>item' ws. draw_button ctx item index = Returned (item', ws) \<longrightarrow>
      list_all (\<lambda>it. is_selected it = same_item it (active_item (user_menus ctx))) (drawn item')
      \<and> unselect item' = unselect item)"
proof -
  have "map unselect items' = map unselect items"
    if "draw_item ctx items = Returned (items', ws)" for items' ws
    using draw_unselect(2) [of ctx items] that by simp
  moreover have "unselect item' = unselect item"
    if "draw_button ctx item index = Returned (item', ws)" for item' ws
    using draw_unselect(1) [of ctx item index] that by simp
  ultimately show ?thesis
    using draw_selected(1) [of ctx item index] draw_selected(2) [of ctx items] by blast
qed

text \<open>
  The theorem on the example items, which start with stale flags: after drawing, the
  separator in the submenu, which is the active item, is the one selected.
\<close>

theorem draw_item_reestablishes_selection_witness:
  "(\<exists>ws. draw_item example_context example_items = Returned (example_items_drawn, ws))
   \<and> list_all (\<lambda>it. is_selected it = same_item it (active_item (user_menus example_context)))
        (concat (map drawn example_items_drawn))
   \<and> map is_selected (concat (map drawn example_items)) = [True, True, False, True]
   \<and> map is_selected (concat (map drawn example_items_drawn)) = [False, False, True, False]"
proof -
  from draw_item_example obtain ws where
    d: "draw_item example_context example_items = Returned (example_items_drawn, ws)" ..
  with draw_item_reestablishes_selection [of example_context example_items]
  have "list_all (\<lambda>it. is_selected it = same_item it (active_item (user_menus example_context)))
        (concat (map drawn example_items_drawn))"
    by blast
  with d show ?thesis
    by (simp add: example_items_def example_items_drawn_def)
qed

subsection \<open>\<open>draw_pie\<close>\<close>

text \<open>
  The eight calls change flags of the first eight items only, whether they all return
  or not; when they return, each of the eight items is as \<open>draw_button\<close> leaves it. On
  well-formed items the calls fail on a short menu only, by its \<open>IndexError\<close>.
\<close>

lemma draw_pie_item_state:
  "fst (state_of (draw_pie_item ctx item label index)) = fst (state_of (draw_button ctx item index))"
  by (simp add: draw_pie_item_def Let_def split: outcome.splits prod.splits)

lemma draw_pie_item_Returned:
  "(\<exists>r. draw_pie_item ctx item label index = Returned r) \<longleftrightarrow>
     (\<exists>r. draw_button ctx item index = Returned r)"
  by (auto simp: draw_pie_item_def Let_def split: outcome.splits prod.splits)

lemma unselect_items_all:
  "length items \<le> n \<Longrightarrow> unselect_items n items = map unselect items"
  by (simp add: unselect_items_def)

lemma unselect_items_update:
  "k < n \<Longrightarrow> k < length items \<Longrightarrow> unselect item' = unselect (items ! k) \<Longrightarrow>
     unselect_items n (items[k := item']) = unselect_items n items"
  by (simp add: unselect_items_def take_update_swap map_update list_update_same_conv)

lemma draw_pie_items_unselect:
  "\<forall>slot \<in> set slots. snd slot < n \<Longrightarrow>
     unselect_items n (fst (state_of (draw_pie_items ctx items slots))) = unselect_items n items"
proof (induction slots arbitrary: items)
  case Nil
  show ?case by simp
next
  case (Cons slot slots)
  obtain label index where slot: "slot = (label, index)" by (cases slot)
  with Cons.prems have n: "index < n" and rest: "\<forall>slot \<in> set slots. snd slot < n" by simp_all
  show ?case
  proof (cases "index < length items")
    case False
    with slot show ?thesis by (simp add: getitem_def)
  next
    case True
    let ?d = "draw_pie_item ctx (items ! index) label (int index)"
    have "unselect (fst (state_of ?d)) = unselect (items ! index)"
      by (simp add: draw_pie_item_state draw_unselect(1))
    with n True have u: "unselect_items n (items[index := fst (state_of ?d)]) = unselect_items n items"
      by (rule unselect_items_update)
    from Cons.IH [OF rest, of "items[index := fst (state_of ?d)]"] u
    have "unselect_items n (fst (state_of (draw_pie_items ctx (items[index := fst (state_of ?d)]) slots)))
            = unselect_items n items" by simp
    with slot True u show ?thesis
      by (auto simp: getitem_def split: outcome.splits)
  qed
qed






lemma draw_pie_items_error:
  assumes g: "active_group (user_menus ctx) = Some g"
  shows "list_all well_formed items \<Longrightarrow>
     error_of (draw_pie_items ctx items slots) =
       (if \<forall>slot \<in> set slots. snd slot < length items then None else Some IndexError)"
proof (induction slots arbitrary: items)
  case Nil
  then show ?case by simp
next
  case (Cons slot slots)
  obtain label index where slot: "slot = (label, index)" by (cases slot)
  show ?case
  proof (cases "index < length items")
    case False
    with slot show ?thesis by (auto simp: getitem_def)
  next
    case k: True
    with Cons.prems have wf0: "well_formed (items ! index)" by (simp add: list_all_length)
    with draw_returns(1) [OF g] draw_pie_item_Returned obtain item' ws1 where
      b: "draw_pie_item ctx (items ! index) label (int index) = Returned (item', ws1)" by fastforce
    then have "item' = fst (state_of (draw_pie_item ctx (items ! index) label (int index)))"
      by simp
    then have "unselect item' = unselect (items ! index)"
      by (simp add: draw_pie_item_state draw_unselect(1))
    then have "well_formed item'"
      using wf0 well_formed_unselect by metis
    with Cons.prems have wf: "list_all well_formed (items[index := item'])"
      by (auto simp: list_all_iff dest: set_update_subset_insert [THEN subsetD])
    from Cons.IH [OF wf]
    have "error_of (draw_pie_items ctx (items[index := item']) slots) =
        (if \<forall>slot \<in> set slots. snd slot < length items then None else Some IndexError)"
      by simp
    with slot k b show ?thesis
      by (cases "draw_pie_items ctx (items[index := item']) slots")
         (auto simp: getitem_def split: prod.splits)
  qed
qed

subsection \<open>What the module writes\<close>

text \<open>
  Each drawing function leaves the context as it was up to the \<open>is_selected\<close> flags of
  the items of the current menu that it reaches, whether it returns or raises;
  \<open>draw_user_menus\<close> does so from the context in which the active group has its
  default. With each frame comes what the function does when it returns, and the
  exception it ends with when there is an active group and the items are well formed.
\<close>

lemma unselect_set_menu_items:
  "get_current_menu (user_menus ctx) = Some cm \<Longrightarrow>
     unselect_items n items = unselect_items n (menu_items cm) \<Longrightarrow>
     unselect_context n (set_menu_items ctx cm items) = unselect_context n ctx"
  by (simp add: unselect_context_def set_menu_items_def)

lemma draw_item_box_frame:
  "unselect_context (length (current_items ctx)) (final_context (draw_item_box ctx)) =
     unselect_context (length (current_items ctx)) ctx"
proof (cases "has_item (user_menus ctx)")
  case False
  then show ?thesis by (simp add: draw_item_box_def final_context_def)
next
  case True
  show ?thesis
  proof (cases "get_current_menu (user_menus ctx)")
    case None
    with True show ?thesis by (simp add: draw_item_box_def final_context_def)
  next
    case (Some cm)
    let ?items = "fst (state_of (draw_item ctx (menu_items cm)))"
    let ?n = "length (current_items ctx)"
    from Some have n: "?n = length (menu_items cm)" by (simp add: current_items_def)
    have u: "map unselect ?items = map unselect (menu_items cm)"
      by (rule draw_unselect(2))
    then have "length ?items = length (menu_items cm)"
      by (rule map_eq_imp_length_eq)
    with u n have "unselect_items ?n ?items = unselect_items ?n (menu_items cm)"
      by (simp add: unselect_items_all)
    from unselect_set_menu_items [OF Some this]
    have "unselect_context ?n (set_menu_items ctx cm ?items) = unselect_context ?n ctx" .
    with True Some show ?thesis
      by (cases "draw_item ctx (menu_items cm)")
         (auto simp: draw_item_box_def final_context_def Let_def)
  qed
qed


lemma draw_item_box_error:
  assumes g: "active_group (user_menus ctx) = Some g"
    and wf: "list_all well_formed (current_items ctx)"
  shows "error_of (draw_item_box ctx) =
     (if has_item (user_menus ctx) \<and> get_current_menu (user_menus ctx) = None
      then Some AttributeError else None)"
proof (cases "has_item (user_menus ctx)")
  case False
  then show ?thesis by (simp add: draw_item_box_def)
next
  case True
  show ?thesis
  proof (cases "get_current_menu (user_menus ctx)")
    case None
    with True show ?thesis by (simp add: draw_item_box_def)
  next
    case (Some cm)
    with wf have "list_all well_formed (menu_items cm)" by (simp add: current_items_def)
    with draw_returns(2) [OF g] obtain items' ws where
      "draw_item ctx (menu_items cm) = Returned (items', ws)" by fastforce
    with True Some show ?thesis by (simp add: draw_item_box_def)
  qed
qed

lemma draw_pie_frame:
  "unselect_context 8 (final_context (draw_pie ctx)) = unselect_context 8 ctx"
proof (cases "get_current_menu (user_menus ctx)")
  case None
  then show ?thesis by (simp add: draw_pie_def final_context_def)
next
  case (Some cm)
  have "\<forall>slot \<in> set pie_slots. snd slot < 8" by (simp add: pie_slots_def)
  from draw_pie_items_unselect [OF this, of ctx "menu_items cm"] unselect_set_menu_items [OF Some]
  have "unselect_context 8
          (set_menu_items ctx cm (fst (state_of (draw_pie_items ctx (menu_items cm) pie_slots))))
            = unselect_context 8 ctx" by simp
  with Some show ?thesis
    by (cases "draw_pie_items ctx (menu_items cm) pie_slots")
       (auto simp: draw_pie_def final_context_def Let_def)
qed


lemma draw_pie_error:
  assumes g: "active_group (user_menus ctx) = Some g"
    and wf: "list_all well_formed (current_items ctx)"
  shows "error_of (draw_pie ctx) =
     (if get_current_menu (user_menus ctx) \<noteq> None \<and> length (current_items ctx) < 8
      then Some IndexError else None)"
proof (cases "get_current_menu (user_menus ctx)")
  case None
  then show ?thesis by (simp add: draw_pie_def)
next
  case (Some cm)
  with wf have w: "list_all well_formed (menu_items cm)" by (simp add: current_items_def)
  have "(\<forall>slot \<in> set pie_slots. snd slot < length (menu_items cm)) \<longleftrightarrow> 8 \<le> length (menu_items cm)"
    by (auto simp: pie_slots_def)
  with draw_pie_items_error [OF g w, of pie_slots]
  have "error_of (draw_pie_items ctx (menu_items cm) pie_slots) =
      (if length (menu_items cm) < 8 then Some IndexError else None)"
    by (simp add: not_le)
  with Some show ?thesis
    by (cases "draw_pie_items ctx (menu_items cm) pie_slots")
       (auto simp: draw_pie_def current_items_def Let_def split: prod.splits)
qed

lemma draw_item_editor_frame: "final_context (draw_item_editor ctx) = ctx"
  by (simp add: draw_item_editor_def final_context_def Let_def split: option.splits)


lemma draw_user_menu_preference_expanded_returns:
  "\<exists>ws. draw_user_menu_preference_expanded ctx kmi map_type = Returned (ctx, ws)"
  by (simp add: draw_user_menu_preference_expanded_def Let_def split: option.splits)

lemma draw_user_menu_preference_frame:
  "final_context (draw_user_menu_preference ctx) = ctx"
proof (cases "get_keymap ctx None False")
  case (Raised e p)
  with get_keymap_no_ensure [of ctx None] show ?thesis
    by (cases p) (simp add: draw_user_menu_preference_def final_context_def)
next
  case (Returned p)
  obtain c kmi where p: "p = (c, kmi)" by (cases p)
  with Returned get_keymap_no_ensure [of ctx None] have c: "c = ctx"
    by (simp add: final_context_def)
  have x: "\<exists>ws. draw_user_menu_preference_expanded ctx kmi mt = Returned (ctx, ws)" for mt
    by (rule draw_user_menu_preference_expanded_returns)
  show ?thesis
  proof (cases kmi)
    case None
    with Returned p c x [of None] show ?thesis
      by (auto simp: draw_user_menu_preference_def final_context_def Let_def
          split: sum.splits option.splits)
  next
    case (Some k)
    with Returned p c x [of "Some (kmi_map_type k)"] show ?thesis
      by (auto simp: draw_user_menu_preference_def final_context_def Let_def
          split: sum.splits option.splits)
  qed
qed

lemma default_active_group_cases:
  "default_active_group ctx = Inr ctx1 \<Longrightarrow>
     (\<exists>g. active_group (user_menus ctx) = Some g \<and> ctx1 = ctx)
     \<or> (\<exists>g gs. active_group (user_menus ctx) = None \<and> menus (user_menus ctx) = g # gs \<and>
           ctx1 = ctx\<lparr>user_menus := (user_menus ctx)\<lparr>active_group := Some g\<rparr>\<rparr>)"
  by (cases "menus (user_menus ctx)")
     (auto simp: default_active_group_def Let_def getitem_def split: if_splits sum.splits)

lemma draw_user_menus_after_default:
  "active_group (user_menus u) = None \<Longrightarrow> menus (user_menus u) = q # qs \<Longrightarrow>
     draw_user_menus u = draw_user_menus (u\<lparr>user_menus := (user_menus u)\<lparr>active_group := Some q\<rparr>\<rparr>)"
  by (simp add: draw_user_menus_def default_active_group_def getitem_def)

lemma user_menus_unselect_context [simp]:
  "active_group (user_menus (unselect_context n ctx)) = active_group (user_menus ctx)"
  by (simp add: unselect_context_def)

lemma draw_user_menus_active:
  assumes a: "active_group (user_menus ctx) = Some a"
  shows "unselect_context (if group_type a = ''PIE'' then 8 else length (current_items ctx))
           (final_context (draw_user_menus ctx)) =
         unselect_context (if group_type a = ''PIE'' then 8 else length (current_items ctx)) ctx
       \<and> take 4 (snd (state_of (draw_user_menus ctx))) =
           [Split, Row, Row, Menu ''USERPREF_MT_menu_select'' (group_name a)]"
proof -
  let ?n = "if group_type a = ''PIE'' then 8 else length (current_items ctx)"
  from a have d: "default_active_group ctx = Inr ctx"
    by (simp add: default_active_group_def)
  show ?thesis
  proof (cases "draw_user_menu_preference ctx")
    case (Raised e p)
    with draw_user_menu_preference_frame [of ctx] obtain ws where "p = (ctx, ws)"
      by (cases p) (simp add: final_context_def)
    with Raised a d show ?thesis
      by (simp add: draw_user_menus_def final_context_def)
  next
    case (Returned p)
    with draw_user_menu_preference_frame [of ctx] obtain ws1 where p: "p = (ctx, ws1)"
      by (cases p) (simp add: final_context_def)
    let ?b = "if group_type a = ''PIE'' then draw_pie ctx else draw_item_box ctx"
    have fb: "unselect_context ?n (final_context ?b) = unselect_context ?n ctx"
      by (simp add: draw_pie_frame draw_item_box_frame)
    show ?thesis
    proof (cases ?b)
      case (Raised e q)
      obtain c ws2 where q: "q = (c, ws2)" by (cases q)
      with Raised fb have "unselect_context ?n c = unselect_context ?n ctx"
        by (simp add: final_context_def)
      with Raised q a d Returned p show ?thesis
        by (simp add: draw_user_menus_def final_context_def Let_def)
    next
      case Returned2: (Returned q)
      obtain c ws2 where q: "q = (c, ws2)" by (cases q)
      with Returned2 fb have u: "unselect_context ?n c = unselect_context ?n ctx"
        by (simp add: final_context_def)
      show ?thesis
      proof (cases "draw_item_editor c")
        case (Raised e t)
        with draw_item_editor_frame [of c] obtain ws3 where "t = (c, ws3)"
          by (cases t) (simp add: final_context_def)
        with Raised Returned2 q u a d Returned p show ?thesis
          by (simp add: draw_user_menus_def final_context_def Let_def)
      next
        case Returned3: (Returned t)
        with draw_item_editor_frame [of c] obtain ws3 where "t = (c, ws3)"
          by (cases t) (simp add: final_context_def)
        with Returned3 Returned2 q u a d Returned p show ?thesis
          by (simp add: draw_user_menus_def final_context_def Let_def)
      qed
    qed
  qed
qed

lemma draw_user_menus_no_group:
  "active_group (user_menus ctx) = None \<Longrightarrow> menus (user_menus ctx) = [] \<Longrightarrow>
     draw_user_menus ctx = Raised IndexError (ctx, [])"
  by (simp add: draw_user_menus_def default_active_group_def getitem_def)


lemma draw_user_menu_preference_returns:
  assumes g: "active_group (user_menus ctx) = Some g" and m: "menus (user_menus ctx) \<noteq> []"
  shows "\<exists>ws. draw_user_menu_preference ctx = Returned (ctx, ws)"
proof -
  from get_keymap_returns [OF g] obtain kmi where k: "get_keymap ctx None False = Returned (ctx, kmi)" ..
  from m obtain qf qs where q: "menus (user_menus ctx) = qf # qs"
    by (cases "menus (user_menus ctx)") auto
  have x: "\<exists>ws. draw_user_menu_preference_expanded ctx kmi mt = Returned (ctx, ws)" for mt
    by (rule draw_user_menu_preference_expanded_returns)
  show ?thesis
  proof (cases kmi)
    case None
    with k g q x [of None] show ?thesis
      by (auto simp: draw_user_menu_preference_def Let_def getitem_def)
  next
    case (Some km)
    with k g q x [of "Some (kmi_map_type km)"] show ?thesis
      by (auto simp: draw_user_menu_preference_def Let_def getitem_def)
  qed
qed

lemma draw_user_menu_preference_no_menus:
  assumes g: "active_group (user_menus ctx) = Some g" and m: "menus (user_menus ctx) = []"
  shows "draw_user_menu_preference ctx =
     Raised IndexError (ctx, [Box, Row, Prop User_menus ''expanded'' (Some '''') None])"
proof -
  from get_keymap_returns [OF g] obtain kmi where k: "get_keymap ctx None False = Returned (ctx, kmi)" ..
  with m show ?thesis
    by (simp add: draw_user_menu_preference_def Let_def getitem_def)
qed

lemma draw_user_menu_preference_error:
  assumes g: "active_group (user_menus ctx) = Some g"
  shows "error_of (draw_user_menu_preference ctx) =
     (if menus (user_menus ctx) = [] then Some IndexError else None)"
proof (cases "menus (user_menus ctx) = []")
  case True
  with draw_user_menu_preference_no_menus [OF g] show ?thesis by simp
next
  case False
  with draw_user_menu_preference_returns [OF g] show ?thesis by fastforce
qed

lemma draw_item_editor_returns: "\<exists>ws. draw_item_editor ctx = Returned (ctx, ws)"
  by (simp add: draw_item_editor_def Let_def split: option.splits)

lemma draw_user_menus_error:
  assumes g: "active_group (user_menus ctx) = Some g"
  shows "error_of (draw_user_menus ctx) =
     (if menus (user_menus ctx) = [] then Some IndexError
      else if group_type g = ''PIE'' then error_of (draw_pie ctx)
      else error_of (draw_item_box ctx))"
proof (cases "menus (user_menus ctx) = []")
  case True
  from g have d: "default_active_group ctx = Inr ctx" by (simp add: default_active_group_def)
  from draw_user_menu_preference_no_menus [OF g True] d g True show ?thesis
    by (simp add: draw_user_menus_def)
next
  case False
  from g have d: "default_active_group ctx = Inr ctx" by (simp add: default_active_group_def)
  from draw_user_menu_preference_returns [OF g False] obtain ws1 where
    p: "draw_user_menu_preference ctx = Returned (ctx, ws1)" ..
  let ?b = "if group_type g = ''PIE'' then draw_pie ctx else draw_item_box ctx"
  have "error_of (draw_user_menus ctx) = error_of ?b"
  proof (cases ?b)
    case (Raised e q)
    with d g p show ?thesis
      by (cases q) (simp add: draw_user_menus_def Let_def)
  next
    case (Returned q)
    obtain c ws2 where q: "q = (c, ws2)" by (cases q)
    from draw_item_editor_returns obtain ws3 where "draw_item_editor c = Returned (c, ws3)" ..
    with Returned q d g p show ?thesis
      by (simp add: draw_user_menus_def Let_def)
  qed
  with False show ?thesis by simp
qed

text \<open>
The example states.
\<close>

lemma unset_context_set:
  "unset_context\<lparr>user_menus := (user_menus unset_context)\<lparr>active_group := Some quick_group\<rparr>\<rparr>
     = example_context"
  by (simp add: unset_context_def example_context_def)

lemma unset_context_fields:
  "active_group (user_menus unset_context) = None"
  "menus (user_menus unset_context) = quick_group # [pie_group]"
  by (simp_all add: unset_context_def example_context_def)



lemma example_items_well_formed: "list_all well_formed example_items"
  by (simp add: example_items_def)

lemma example_contexts_guarantees:
  "active_group (user_menus example_context) = Some quick_group"
  "current_items example_context = example_items"
  "active_group (user_menus pie_context) = Some pie_group"
  "current_items pie_context = example_items @ example_items @ example_items @ example_items"
  "active_group (user_menus short_pie_context) = Some pie_group"
  "current_items short_pie_context = example_items @ [hd example_items]"
  "active_group (user_menus long_pie_context) = Some pie_group"
  "current_items long_pie_context =
     example_items @ example_items @ example_items @ example_items @ [hd example_items]"
  "active_group (user_menus no_menus_context) = Some quick_group"
  "current_items no_menus_context = example_items"
  by (simp_all add: example_context_def pie_context_def short_pie_context_def long_pie_context_def
      no_menus_context_def current_items_def)

lemma example_contexts_menus:
  "menus (user_menus example_context) = [quick_group, pie_group]"
  "menus (user_menus pie_context) = [quick_group, pie_group]"
  "menus (user_menus short_pie_context) = [quick_group, pie_group]"
  "menus (user_menus no_menus_context) = []"
  "get_current_menu (user_menus example_context) = Some \<lparr>menu_items = example_items\<rparr>"
  "get_current_menu (user_menus pie_context) =
     Some \<lparr>menu_items = example_items @ example_items @ example_items @ example_items\<rparr>"
  "get_current_menu (user_menus short_pie_context) =
     Some \<lparr>menu_items = example_items @ [hd example_items]\<rparr>"
  "has_item (user_menus example_context)"
  by (simp_all add: example_context_def pie_context_def short_pie_context_def no_menus_context_def)

lemma example_items_length: "length example_items = 2"
  by (simp add: example_items_def)




subsection \<open>The default active group\<close>

text \<open>
  Claim C5. When \<open>um.active_group\<close> is unset at entry, \<open>draw_user_menus\<close> assigns
  \<open>um.active_group = um.menus[0]\<close> before it draws anything: the whole call is the call
  on the state with that group active, it ends (returning or not) with that group
  active, and the first widget that shows data, the group selector, shows that group's
  name. When a group is active at entry it is still the active group at the end. (With
  no active group and no group at all, \<open>um.menus[0]\<close> raises \<open>IndexError\<close> before
  anything is written or drawn.)
\<close>

theorem draw_user_menus_default_active_group:
  "(active_group (user_menus ctx) = None \<and> menus (user_menus ctx) = g # gs \<longrightarrow>
      draw_user_menus ctx =
        draw_user_menus (ctx\<lparr>user_menus := (user_menus ctx)\<lparr>active_group := Some g\<rparr>\<rparr>)
      \<and> active_group (user_menus (final_context (draw_user_menus ctx))) = Some g
      \<and> take 4 (snd (state_of (draw_user_menus ctx))) =
          [Split, Row, Row, Menu ''USERPREF_MT_menu_select'' (group_name g)])
   \<and> (active_group (user_menus ctx) = Some a \<longrightarrow>
        active_group (user_menus (final_context (draw_user_menus ctx))) = Some a
        \<and> take 4 (snd (state_of (draw_user_menus ctx))) =
            [Split, Row, Row, Menu ''USERPREF_MT_menu_select'' (group_name a)])
   \<and> (active_group (user_menus ctx) = None \<and> menus (user_menus ctx) = [] \<longrightarrow>
        draw_user_menus ctx = Raised IndexError (ctx, []))"
proof (intro conjI impI)
  assume u: "active_group (user_menus ctx) = None \<and> menus (user_menus ctx) = g # gs"
  let ?c = "ctx\<lparr>user_menus := (user_menus ctx)\<lparr>active_group := Some g\<rparr>\<rparr>"
  from u show eq: "draw_user_menus ctx = draw_user_menus ?c"
    by (simp add: draw_user_menus_after_default)
  have s: "active_group (user_menus ?c) = Some g" by simp
  from draw_user_menus_active [OF s]
  have f: "unselect_context (if group_type g = ''PIE'' then 8 else length (current_items ?c))
             (final_context (draw_user_menus ?c)) =
           unselect_context (if group_type g = ''PIE'' then 8 else length (current_items ?c)) ?c"
    and t: "take 4 (snd (state_of (draw_user_menus ?c))) =
          [Split, Row, Row, Menu ''USERPREF_MT_menu_select'' (group_name g)]"
    by simp_all
  from arg_cong [OF f, of "\<lambda>c. active_group (user_menus c)"]
  have "active_group (user_menus (final_context (draw_user_menus ?c))) = Some g"
    by simp
  with eq show "active_group (user_menus (final_context (draw_user_menus ctx))) = Some g"
    by simp
  from eq t show "take 4 (snd (state_of (draw_user_menus ctx))) =
          [Split, Row, Row, Menu ''USERPREF_MT_menu_select'' (group_name g)]"
    by simp
next
  assume s: "active_group (user_menus ctx) = Some a"
  from draw_user_menus_active [OF s]
  have f: "unselect_context (if group_type a = ''PIE'' then 8 else length (current_items ctx))
             (final_context (draw_user_menus ctx)) =
           unselect_context (if group_type a = ''PIE'' then 8 else length (current_items ctx)) ctx"
    and t: "take 4 (snd (state_of (draw_user_menus ctx))) =
          [Split, Row, Row, Menu ''USERPREF_MT_menu_select'' (group_name a)]"
    by simp_all
  from arg_cong [OF f, of "\<lambda>c. active_group (user_menus c)"]
  have "active_group (user_menus (final_context (draw_user_menus ctx))) =
          active_group (user_menus ctx)"
    by simp
  with s show "active_group (user_menus (final_context (draw_user_menus ctx))) = Some a"
    by simp
  from t show "take 4 (snd (state_of (draw_user_menus ctx))) =
          [Split, Row, Row, Menu ''USERPREF_MT_menu_select'' (group_name a)]" .
next
  assume "active_group (user_menus ctx) = None \<and> menus (user_menus ctx) = []"
  then show "draw_user_menus ctx = Raised IndexError (ctx, [])"
    by (simp add: draw_user_menus_no_group)
qed

text \<open>
The theorem on the example state without an active group, and on the one with.
\<close>

theorem draw_user_menus_default_active_group_witness:
  "active_group (user_menus unset_context) = None
   \<and> menus (user_menus unset_context) = [quick_group, pie_group]
   \<and> draw_user_menus unset_context = draw_user_menus example_context
   \<and> active_group (user_menus (final_context (draw_user_menus unset_context))) = Some quick_group
   \<and> take 4 (snd (state_of (draw_user_menus unset_context))) =
       [Split, Row, Row, Menu ''USERPREF_MT_menu_select'' ''Quick Favorites'']
   \<and> active_group (user_menus example_context) = Some quick_group
   \<and> active_group (user_menus (final_context (draw_user_menus example_context))) = Some quick_group"
proof -
  have s: "active_group (user_menus example_context) = Some quick_group"
    by (simp add: example_context_def)
  note t = draw_user_menus_default_active_group
    [of unset_context quick_group "[pie_group]" quick_group]
  note t' = draw_user_menus_default_active_group
    [of example_context quick_group "[pie_group]" quick_group]
  from t unset_context_fields have
    "draw_user_menus unset_context =
       draw_user_menus (unset_context\<lparr>user_menus := (user_menus unset_context)\<lparr>active_group := Some quick_group\<rparr>\<rparr>)
     \<and> active_group (user_menus (final_context (draw_user_menus unset_context))) = Some quick_group
     \<and> take 4 (snd (state_of (draw_user_menus unset_context))) =
          [Split, Row, Row, Menu ''USERPREF_MT_menu_select'' (group_name quick_group)]"
    by blast
  note c = this
  from c [THEN conjunct1]
  have e: "draw_user_menus unset_context = draw_user_menus example_context"
    by (simp only: unset_context_set)
  from c [THEN conjunct2, THEN conjunct1]
  have a: "active_group (user_menus (final_context (draw_user_menus unset_context))) = Some quick_group" .
  from c [THEN conjunct2, THEN conjunct2]
  have w: "take 4 (snd (state_of (draw_user_menus unset_context))) =
          [Split, Row, Row, Menu ''USERPREF_MT_menu_select'' ''Quick Favorites'']"
    by (simp add: quick_group_def)
  from t' s
  have a': "active_group (user_menus (final_context (draw_user_menus example_context))) = Some quick_group"
    by blast
  from unset_context_fields have f: "active_group (user_menus unset_context) = None"
    "menus (user_menus unset_context) = [quick_group, pie_group]" by simp_all
  from f e a w s a' show ?thesis by (intro conjI)
qed

subsection \<open>The failures of the drawing functions\<close>

text \<open>
  Claim C3, as the specification states it: on every state with the guarantees it
  names (an active group exists; the current menu, when it is not \<open>None\<close>, is well
  formed) no drawing function fails, and the accesses of \<open>cm.menu_items\<close> at the indices
  0 to 7 by \<open>draw_pie\<close> are in range. It is not so. The pie state with a menu of three
  well-formed items has these guarantees, and there \<open>cm.menu_items[3]\<close> is out of range:
  \<open>draw_pie\<close>, and with it \<open>draw_user_menus\<close>, raises \<open>IndexError\<close>. The list state with
  an active group and an empty \<open>um.menus\<close> has them too, and there \<open>um.menus[0]\<close> in
  \<open>draw_user_menu_preference\<close> raises \<open>IndexError\<close>.
\<close>

theorem drawing_raises_index_error_counterexample:
  "active_group (user_menus short_pie_context) = Some pie_group
   \<and> get_current_menu (user_menus short_pie_context) =
       Some \<lparr>menu_items = example_items @ [hd example_items]\<rparr>
   \<and> list_all well_formed (example_items @ [hd example_items])
   \<and> getitem (example_items @ [hd example_items]) 3 = Inl IndexError
   \<and> error_of (draw_pie short_pie_context) = Some IndexError
   \<and> error_of (draw_user_menus short_pie_context) = Some IndexError
   \<and> active_group (user_menus no_menus_context) = Some quick_group
   \<and> get_current_menu (user_menus no_menus_context) = Some \<lparr>menu_items = example_items\<rparr>
   \<and> list_all well_formed example_items
   \<and> error_of (draw_user_menu_preference no_menus_context) = Some IndexError
   \<and> error_of (draw_user_menus no_menus_context) = Some IndexError"
proof -
  have g1: "active_group (user_menus short_pie_context) = Some pie_group"
    by (rule example_contexts_guarantees)
  have c1: "get_current_menu (user_menus short_pie_context) =
       Some \<lparr>menu_items = example_items @ [hd example_items]\<rparr>"
    by (rule example_contexts_menus)
  have w1: "list_all well_formed (example_items @ [hd example_items])"
    by (simp add: example_items_def)
  then have w1': "list_all well_formed (current_items short_pie_context)"
    by (simp add: example_contexts_guarantees)
  have i: "getitem (example_items @ [hd example_items]) 3 = Inl IndexError"
    by (simp add: getitem_def example_items_def)
  from draw_pie_error [OF g1 w1']
  have p: "error_of (draw_pie short_pie_context) = Some IndexError"
    by (simp add: example_contexts_guarantees example_contexts_menus example_items_length)
  from draw_user_menus_error [OF g1] p
  have u: "error_of (draw_user_menus short_pie_context) = Some IndexError"
    by (simp add: example_contexts_menus pie_group_def)
  have g2: "active_group (user_menus no_menus_context) = Some quick_group"
    by (rule example_contexts_guarantees)
  have c2: "get_current_menu (user_menus no_menus_context) = Some \<lparr>menu_items = example_items\<rparr>"
    by (simp add: no_menus_context_def example_context_def)
  note w2 = example_items_well_formed
  from draw_user_menu_preference_error [OF g2]
  have q: "error_of (draw_user_menu_preference no_menus_context) = Some IndexError"
    by (simp add: example_contexts_menus)
  from draw_user_menus_error [OF g2]
  have v: "error_of (draw_user_menus no_menus_context) = Some IndexError"
    by (simp add: example_contexts_menus)
  from g1 c1 w1 i p u g2 c2 w2 q v show ?thesis by (intro conjI)
qed

text \<open>
  Claim C3, amended. On a state where an active group exists and the items of the
  current menu are well formed, the drawing functions fail in these cases and in no
  other. \<open>draw_item\<close> and \<open>draw_button\<close> on the items of the current menu,
  \<open>draw_item_editor\<close> and \<open>draw_user_menu_preference_expanded\<close> do not fail.
  \<open>draw_item_box\<close> fails exactly when \<open>um.has_item()\<close> holds and the current menu is
  \<open>None\<close>, with \<open>AttributeError\<close>. \<open>draw_pie\<close> fails exactly when the current menu is not
  \<open>None\<close> and has fewer than eight items, with \<open>IndexError\<close>: \<open>cm.menu_items[k]\<close> for
  \<open>k\<close> from 0 to 7 is in range exactly when \<open>k\<close> is less than the length of the menu, and
  nothing in the module checks that length. \<open>draw_user_menu_preference\<close> fails exactly
  when \<open>um.menus\<close> is empty, with the \<open>IndexError\<close> of \<open>um.menus[0]\<close>. \<open>draw_user_menus\<close>
  fails exactly when \<open>draw_user_menu_preference\<close> does, or when the function it calls
  for the type of the active group does (\<open>draw_pie\<close> for \<open>PIE\<close>, \<open>draw_item_box\<close>
  otherwise). \<open>_indented_layout\<close> fails exactly when there is no region
  (\<open>AttributeError\<close>) or the width of the region is zero (\<open>ZeroDivisionError\<close>).
\<close>

theorem drawing_error_paths:
  assumes g: "active_group (user_menus ctx) = Some g"
    and wf: "list_all well_formed (current_items ctx)"
  shows "error_of (draw_item ctx (current_items ctx)) = None
       \<and> (\<forall>item \<in> set (current_items ctx). error_of (draw_button ctx item index) = None)
       \<and> error_of (draw_item_editor ctx) = None
       \<and> error_of (draw_user_menu_preference_expanded ctx kmi map_type) = None
       \<and> error_of (draw_item_box ctx) =
           (if has_item (user_menus ctx) \<and> get_current_menu (user_menus ctx) = None
            then Some AttributeError else None)
       \<and> error_of (draw_pie ctx) =
           (if get_current_menu (user_menus ctx) \<noteq> None \<and> length (current_items ctx) < 8
            then Some IndexError else None)
       \<and> error_of (draw_user_menu_preference ctx) =
           (if menus (user_menus ctx) = [] then Some IndexError else None)
       \<and> error_of (draw_user_menus ctx) =
           (if menus (user_menus ctx) = [] then Some IndexError
            else if group_type g = ''PIE'' then
              (if get_current_menu (user_menus ctx) \<noteq> None \<and> length (current_items ctx) < 8
               then Some IndexError else None)
            else
              (if has_item (user_menus ctx) \<and> get_current_menu (user_menus ctx) = None
               then Some AttributeError else None))
       \<and> (\<forall>k<8. getitem (current_items ctx) (int k) =
             (if k < length (current_items ctx) then Inr (current_items ctx ! k)
              else Inl IndexError))
       \<and> error_of (indented_layout region_width level) =
           (case region_width of
              None \<Rightarrow> Some AttributeError
            | Some width \<Rightarrow> if width = 0 then Some ZeroDivisionError else None)"
proof -
  from draw_returns(2) [OF g, of "current_items ctx"] wf
  have a: "error_of (draw_item ctx (current_items ctx)) = None" by auto
  have b: "\<forall>item \<in> set (current_items ctx). error_of (draw_button ctx item index) = None"
  proof
    fix item
    assume "item \<in> set (current_items ctx)"
    with wf have "well_formed item" by (simp add: list_all_iff)
    with draw_returns(1) [OF g, of item index]
    show "error_of (draw_button ctx item index) = None" by auto
  qed
  from draw_item_editor_returns [of ctx]
  have c: "error_of (draw_item_editor ctx) = None" by auto
  from draw_user_menu_preference_expanded_returns [of ctx kmi map_type]
  have d: "error_of (draw_user_menu_preference_expanded ctx kmi map_type) = None" by auto
  note e = draw_item_box_error [OF g wf]
  note f = draw_pie_error [OF g wf]
  note h = draw_user_menu_preference_error [OF g]
  have i: "error_of (draw_user_menus ctx) =
           (if menus (user_menus ctx) = [] then Some IndexError
            else if group_type g = ''PIE'' then
              (if get_current_menu (user_menus ctx) \<noteq> None \<and> length (current_items ctx) < 8
               then Some IndexError else None)
            else
              (if has_item (user_menus ctx) \<and> get_current_menu (user_menus ctx) = None
               then Some AttributeError else None))"
    by (simp only: draw_user_menus_error [OF g] e f)
  have j: "\<forall>k<8. getitem (current_items ctx) (int k) =
             (if k < length (current_items ctx) then Inr (current_items ctx ! k)
              else Inl IndexError)"
    by (simp add: getitem_def)
  have k: "error_of (indented_layout region_width level) =
           (case region_width of
              None \<Rightarrow> Some AttributeError
            | Some width \<Rightarrow> if width = 0 then Some ZeroDivisionError else None)"
    by (simp add: indented_layout_def split: option.splits)
  from a b c d e f h i j k show ?thesis by (intro conjI)
qed

text \<open>
  The theorem on the example states: nothing fails on the pie state of eight items nor,
  for the functions \<open>draw_user_menus\<close> calls, on the list state; \<open>draw_pie\<close> on the list
  state, whose menu has two items, raises \<open>IndexError\<close>, the index 1 being in range and
  the index 2 not.
\<close>

theorem drawing_error_paths_witness:
  "active_group (user_menus pie_context) = Some pie_group
   \<and> list_all well_formed (current_items pie_context)
   \<and> error_of (draw_pie pie_context) = None
   \<and> error_of (draw_user_menus pie_context) = None
   \<and> active_group (user_menus example_context) = Some quick_group
   \<and> list_all well_formed (current_items example_context)
   \<and> error_of (draw_item_box example_context) = None
   \<and> error_of (draw_user_menus example_context) = None
   \<and> error_of (draw_pie example_context) = Some IndexError
   \<and> getitem (current_items example_context) 1
       = Inr (Menu_item 2 ''More'' ''SUBMENU'' ''NONE'' True
               (Some [Menu_item 3 '''' ''SEPARATOR'' ''NONE'' False None,
                      Menu_item 4 ''View'' ''MENU'' ''NONE'' True None]))
   \<and> getitem (current_items example_context) 2 = Inl IndexError"
proof -
  have g1: "active_group (user_menus pie_context) = Some pie_group"
    by (rule example_contexts_guarantees)
  have w1: "list_all well_formed (current_items pie_context)"
    by (simp add: example_contexts_guarantees example_items_well_formed)
  have g2: "active_group (user_menus example_context) = Some quick_group"
    by (rule example_contexts_guarantees)
  have w2: "list_all well_formed (current_items example_context)"
    by (simp add: example_contexts_guarantees example_items_well_formed)
  note t1 = drawing_error_paths [OF g1 w1, of 0 None None None 0]
  note t2 = drawing_error_paths [OF g2 w2, of 0 None None None 0]
  from t1 have p: "error_of (draw_pie pie_context) = None"
    and u: "error_of (draw_user_menus pie_context) = None"
    by (simp_all add: example_contexts_guarantees example_contexts_menus example_items_length
        pie_group_def)
  from t2 have b: "error_of (draw_item_box example_context) = None"
    and u2: "error_of (draw_user_menus example_context) = None"
    and p2: "error_of (draw_pie example_context) = Some IndexError"
    by (simp_all add: example_contexts_guarantees example_contexts_menus example_items_length
        quick_group_def)
  from t2 have "\<forall>k<8. getitem (current_items example_context) (int k) =
             (if k < length (current_items example_context)
              then Inr (current_items example_context ! k) else Inl IndexError)"
    by (elim conjE)
  note n = this [rule_format]
  from n [of 1] have i1: "getitem (current_items example_context) 1
       = Inr (Menu_item 2 ''More'' ''SUBMENU'' ''NONE'' True
               (Some [Menu_item 3 '''' ''SEPARATOR'' ''NONE'' False None,
                      Menu_item 4 ''View'' ''MENU'' ''NONE'' True None]))"
    by (simp add: example_contexts_guarantees example_items_def)
  from n [of 2] have i2: "getitem (current_items example_context) 2 = Inl IndexError"
    by (simp add: example_contexts_guarantees example_items_def)
  from g1 w1 p u g2 w2 b u2 p2 i1 i2 show ?thesis by (intro conjI)
qed

end
